theory Spec2Isabelle
  imports Complex_Main "HOL-Library.AList"
begin

text \<open>
  Shallow embedding of the checker of the space-weather monitor: the alert evaluator,
  the cooldown filter and the dispatcher, the state store with its lock file, and the
  prediction store with its verifier and its submission endpoint. The functions of the
  source are translated first, then the statements of the specification are written
  down and compared with them.
\<close>

section \<open>Data model (src/lib/types.ts)\<close>

text \<open>
  JavaScript numbers are modelled as \<^typ>\<open>real\<close>: the fetchers drop every reading that
  does not parse (\<^verbatim>\<open>isNaN\<close> filters in src/lib/swpc.ts), so the values that reach the
  checker are finite. Whole-number configuration values (minutes, hours, limits, process
  ids) and epoch milliseconds are \<^typ>\<open>int\<close>. Strings are byte strings (UTF-8); a
  field of type \<^verbatim>\<open>T | null\<close> is a \<^typ>\<open>'a option\<close>.

  Timestamps stay what they are in the program, ISO-8601 strings. The JavaScript library
  supplies their meaning; the library functions the program calls are collected in the
  record \<open>jslib\<close> and passed to every function that uses them. \<open>getTime s\<close> is
  \<^verbatim>\<open>new Date(s).getTime()\<close>, with \<open>None\<close> for the NaN of an unparseable string, on
  which every comparison is false. \<open>slice0 n s\<close> is \<^verbatim>\<open>s.slice(0, n)\<close>, which counts
  UTF-16 code units and not the bytes of the model's strings.
\<close>

record jslib =
  getTime :: "string \<Rightarrow> int option"
  toISOString :: "int \<Rightarrow> string"
  numStr :: "real \<Rightarrow> string"
  toFixed1 :: "real \<Rightarrow> string"
  formatTime :: "string \<Rightarrow> string"
  toLocaleTimeString :: "int \<Rightarrow> string"
  toLocaleDateString :: "string \<Rightarrow> string"
  trim :: "string \<Rightarrow> string"
  slice0 :: "nat \<Rightarrow> string \<Rightarrow> string"

datatype AlertUrgency = Critical | High | Moderate | Info

record CME =
  cme_id :: string
  cme_activityID :: string
  cme_startTime :: string
  cme_sourceLocation :: "string option"
  cme_activeRegionNum :: "real option"
  cme_speed :: "real option"
  cme_halfAngle :: "real option"
  cme_isEarthDirected :: bool
  cme_predictedArrival :: "string option"
  cme_predictedKp :: "real option"
  cme_note :: "string option"

record SolarFlare =
  fl_id :: string
  fl_beginTime :: string
  fl_peakTime :: "string option"
  fl_endTime :: "string option"
  fl_classType :: string
  fl_sourceLocation :: "string option"
  fl_activeRegionNum :: "real option"

record GeomagneticStorm =
  st_id :: string
  st_startTime :: string
  st_kpIndex :: real
  st_gScale :: string

record HighSpeedStream =
  hss_id :: string
  hss_eventTime :: string
  hss_instruments :: "string list"

record SolarWind =
  sw_timestamp :: string
  sw_speed :: real
  sw_density :: real
  sw_temperature :: real

record MagneticField =
  mf_timestamp :: string
  mf_bx :: real
  mf_by :: real
  mf_bz :: real
  mf_bt :: real

record NOAAAlert =
  na_productId :: string
  na_issueTime :: string
  na_message :: string

text \<open>
  Of the snapshot, the fields that the evaluator, the state update of the checker and
  the prediction verifier read.
\<close>

record SpaceWeatherSnapshot =
  kp :: real
  solarWind :: "SolarWind option"
  magneticField :: "MagneticField option"
  earthDirectedCMEs :: "CME list"
  recentFlares :: "SolarFlare list"
  recentStorms :: "GeomagneticStorm list"
  recentHSS :: "HighSpeedStream list"
  activeAlerts :: "NOAAAlert list"

record ActiveRegion =
  regionNumber :: real
  ar_location :: string
  magneticClass :: "string option"
  flareProb_M :: real
  flareProb_X :: real

record SpaceWeatherAlert =
  a_id :: string
  a_type :: string
  a_urgency :: AlertUrgency
  a_title :: string
  a_body :: string
  a_timestamp :: string
  a_sourceEventId :: "string option"

record DataHealthEntry =
  dh_source :: string
  dh_ok :: bool
  dh_lastSuccess :: string
  dh_lastError :: "string option"

record KnownCME =
  k_id :: string
  k_predictedKp :: "real option"
  k_predictedArrival :: "string option"

record CheckerState =
  schemaVersion :: real
  lastRunAt :: string
  lastKp :: real
  lastBz :: real
  lastWindSpeed :: real
  lastWindDensity :: real
  kpWasAbove5 :: bool
  kpWasAbove7 :: bool
  bzWasBelow10 :: bool
  bzWasBelow15 :: bool
  windWasAbove600 :: bool
  windWasAbove700 :: bool
  densityWasAbove20 :: bool
  knownCMEs :: "KnownCME list"
  knownFlareIds :: "string list"
  knownHSSIds :: "string list"
  knownRegionNumbers :: "real list"
  knownAlertProductIds :: "string list"
  lastCooldowns :: "(string \<times> string) list"
  dataHealth :: "DataHealthEntry list"
  alertsSent :: "SpaceWeatherAlert list"

section \<open>Configuration (src/scripts/config.ts)\<close>

definition cmeRevision_kpJump :: real where
  "cmeRevision_kpJump = 2"

definition activeRegion_mFlareProb :: real where
  "activeRegion_mFlareProb = 30"

definition activeRegion_xFlareProb :: real where
  "activeRegion_xFlareProb = 10"

definition activeRegionAlerts_enabled :: bool where
  "activeRegionAlerts_enabled = True"

definition maxAlertHistory :: int where
  "maxAlertHistory = 100"

text \<open>The cooldown table, in minutes; a type that is not a key reads \<^verbatim>\<open>undefined\<close>.\<close>

definition cooldowns :: "(string \<times> int) list" where
  "cooldowns =
    [(''kp-threshold'', 180), (''kp-elevated'', 360), (''bz-threshold'', 60),
     (''wind-speed'', 60), (''wind-density'', 120), (''flare-m'', 60), (''flare-x'', 0),
     (''cme-earth'', 0), (''cme-revision'', 60), (''hss-arrival'', 240),
     (''active-region'', 360), (''all-clear'', 60), (''data-stale'', 360)]"

datatype Channel = Signal | Desktop

fun channels :: "AlertUrgency \<Rightarrow> Channel list" where
  "channels Critical = [Signal, Desktop]"
| "channels High = [Signal, Desktop]"
| "channels Moderate = [Desktop]"
| "channels Info = [Desktop]"

record QuietHours =
  qh_enabled :: bool
  qh_start :: int
  qh_end :: int

definition quietHours :: QuietHours where
  "quietHours = \<lparr>qh_enabled = True, qh_start = 23, qh_end = 7\<rparr>"

text \<open>
  \<^verbatim>\<open>CONFIG.impactDescriptions.kp[i] || ''\<close>: the table has the keys 4 to 9, any other
  index reads \<^verbatim>\<open>undefined\<close> and gives the empty string.
\<close>

definition impactKp :: "int \<Rightarrow> string" where
  "impactKp i =
    (if i = 4 then ''Elevated geomagnetic activity. Aurora possible at very high latitudes.''
     else if i = 5 then ''G1 minor storm. Aurora visible at high latitudes, weak power grid fluctuations possible.''
     else if i = 6 then ''G2 moderate storm. Aurora visible at mid-high latitudes, HF radio intermittent.''
     else if i = 7 then ''G3 strong storm. Aurora visible at mid-latitudes, power grid irregularities, satellite drag.''
     else if i = 8 then ''G4 severe storm. Aurora widespread, possible power grid damage, satellite charging.''
     else if i = 9 then ''G5 extreme storm. Widespread aurora, power grid blackouts possible, satellite damage risk.''
     else [])"

definition impactBz10 :: string where
  "impactBz10 = ''Moderately geoeffective. Energy transfer into magnetosphere increasing.''"

definition impactBz15 :: string where
  "impactBz15 = ''Strongly geoeffective. Sustained coupling likely to drive geomagnetic storming.''"

definition impactWind600 :: string where
  "impactWind600 = ''Elevated solar wind. May indicate coronal hole stream or CME approach.''"

definition impactWind700 :: string where
  "impactWind700 = ''High-speed solar wind. Likely CME shock front or strong coronal hole stream.''"

text \<open>\<^verbatim>\<open>CONFIG.impactDescriptions.flare[letter] || ''\<close>, indexed by a one-character string.\<close>

definition impactFlare :: "string \<Rightarrow> string" where
  "impactFlare letter =
    (if letter = ''M'' then ''M-class flare. Brief HF radio blackout on sunlit side of Earth.''
     else if letter = ''X'' then ''X-class flare. Wide-area HF radio blackout, possible navigation errors.''
     else [])"

section \<open>JavaScript helpers\<close>

text \<open>Non-ASCII characters of the message templates, as their UTF-8 bytes.\<close>

definition emDash :: string where
  "emDash = [CHR 0xE2, CHR 0x80, CHR 0x94]"

text \<open>
  The dash of the two prediction messages (the 429 message of the endpoint and the
  result notification of the verifier). The source files hold it as the eight bytes
  below, a dash that was decoded and encoded once too often, and those bytes are what
  the program sends.
\<close>

definition garbledDash :: string where
  "garbledDash = [CHR 0xC3, CHR 0xA2, CHR 0xE2, CHR 0x82, CHR 0xAC, CHR 0xE2, CHR 0x80, CHR 0x9D]"

definition rightArrow :: string where
  "rightArrow = [CHR 0xE2, CHR 0x86, CHR 0x92]"

definition superThree :: string where
  "superThree = [CHR 0xC2, CHR 0xB3]"

definition middleDot :: string where
  "middleDot = [CHR 0xC2, CHR 0xB7]"

text \<open>\<^verbatim>\<open>Math.round\<close> rounds halves up; \<^verbatim>\<open>x ?? d\<close> is the default for null.\<close>

definition mathRound :: "real \<Rightarrow> int" where
  "mathRound x = \<lfloor>x + 1 / 2\<rfloor>"

definition orElse :: "'a option \<Rightarrow> 'a \<Rightarrow> 'a" where
  "orElse v d = (case v of None \<Rightarrow> d | Some x \<Rightarrow> x)"

text \<open>\<^verbatim>\<open>s.charAt(0)\<close>: the first character as a string, empty for the empty string.\<close>

definition charAt0 :: "string \<Rightarrow> string" where
  "charAt0 s = take 1 s"

text \<open>\<^verbatim>\<open>s.startsWith(p)\<close>.\<close>

definition startsWith :: "string \<Rightarrow> string \<Rightarrow> bool" where
  "startsWith s p = (take (length p) s = p)"

text \<open>
  \<^verbatim>\<open>xs.slice(-n)\<close> for an integer \<open>n\<close>: the last \<open>n\<close> elements when \<open>n\<close> is
  positive, the whole array when \<open>n = 0\<close> (the start index is then \<open>-0\<close>, that is 0),
  and the array without its first \<open>-n\<close> elements when \<open>n\<close> is negative.
\<close>

definition sliceLast :: "int \<Rightarrow> 'a list \<Rightarrow> 'a list" where
  "sliceLast n xs =
    (if n > 0 then drop (length xs - nat n) xs else drop (nat (- n)) xs)"

section \<open>Alert evaluation (src/scripts/alerts.ts)\<close>

text \<open>
  \<open>formatETA\<close> reads the clock itself (\<^verbatim>\<open>Date.now()\<close>, here \<open>nowMs\<close>). An arrival
  time that does not parse makes \<open>hours\<close> NaN, every comparison fails and the last
  branch prints it.
\<close>

definition formatETA :: "jslib \<Rightarrow> int \<Rightarrow> string \<Rightarrow> string" where
  "formatETA js nowMs arrivalTime =
    (case getTime js arrivalTime of
       None \<Rightarrow> ''~NaNd''
     | Some t \<Rightarrow>
         (let hours = mathRound (real_of_int (t - nowMs) / 3600000) in
          if hours < 0 then ''already past predicted arrival''
          else if hours < 1 then ''imminent''
          else if hours < 24 then ''~'' @ numStr js (of_int hours) @ ''h''
          else ''~'' @ numStr js (of_int (mathRound (of_int hours / 24))) @ ''d''))"

text \<open>Rule 1, the body of the loop over \<^verbatim>\<open>snapshot.earthDirectedCMEs\<close>.\<close>

definition cmeAlerts :: "jslib \<Rightarrow> string \<Rightarrow> int \<Rightarrow> CheckerState \<Rightarrow> CME \<Rightarrow> SpaceWeatherAlert list" where
  "cmeAlerts js now nowMs prevState cme =
    (case find (\<lambda>k. k_id k = cme_id cme) (knownCMEs prevState) of
       None \<Rightarrow>
         (let predictedKp = orElse (cme_predictedKp cme) 0;
              urgency = (if predictedKp \<ge> 7 then Critical else High);
              speed = (case cme_speed cme of None \<Rightarrow> []
                       | Some v \<Rightarrow> if v = 0 then [] else '' at '' @ numStr js v @ '' km/s'');
              eta = (case cme_predictedArrival cme of None \<Rightarrow> []
                     | Some t \<Rightarrow> if t = [] then [] else '', ETA '' @ formatETA js nowMs t);
              impact = (if predictedKp \<ge> 5 then '' '' @ impactKp (min \<lfloor>predictedKp\<rfloor> 9) else [])
          in [\<lparr>a_id = ''cme-earth-'' @ cme_id cme,
               a_type = ''cme-earth'',
               a_urgency = urgency,
               a_title = ''Earth-Directed CME'' @
                 (if predictedKp \<ge> 5 then '' (Kp '' @ numStr js predictedKp @ '' predicted)'' else []),
               a_body = ''CME erupted '' @ formatTime js (cme_startTime cme) @ speed @ eta @ ''.'' @ impact,
               a_timestamp = now,
               a_sourceEventId = Some (cme_id cme)\<rparr>])
     | Some known \<Rightarrow>
         (let oldKp = orElse (k_predictedKp known) 0;
              newKp = orElse (cme_predictedKp cme) 0;
              kpJump = newKp - oldKp
          in if kpJump \<ge> cmeRevision_kpJump \<and> newKp \<ge> 5 then
               [\<lparr>a_id = ''cme-revision-'' @ cme_id cme @ ''-'' @ now,
                 a_type = ''cme-revision'',
                 a_urgency = (if newKp \<ge> 7 then Critical else High),
                 a_title = ''CME Forecast Upgraded: Kp '' @ numStr js oldKp @ '' '' @ rightArrow @ '' '' @ numStr js newKp,
                 a_body = ''Earth-directed CME now predicted to cause Kp '' @ numStr js newKp @
                   '' (was '' @ numStr js oldKp @ ''). '' @ impactKp (min \<lfloor>newKp\<rfloor> 9),
                 a_timestamp = now,
                 a_sourceEventId = Some (cme_id cme)\<rparr>]
             else []))"

text \<open>Rule 2, the body of the loop over \<^verbatim>\<open>snapshot.recentFlares\<close>.\<close>

definition flareAlerts :: "jslib \<Rightarrow> string \<Rightarrow> CheckerState \<Rightarrow> SolarFlare \<Rightarrow> SpaceWeatherAlert list" where
  "flareAlerts js now prevState flare =
    (if fl_id flare \<in> set (knownFlareIds prevState) then []
     else
       (let cls = fl_classType flare;
            letter = charAt0 cls;
            urgency = (if letter = ''X'' then Some Critical
                       else if letter = ''M'' then Some High else None);
            alertType = (if letter = ''X'' then ''flare-x''
                         else if letter = ''M'' then ''flare-m'' else [])
        in case urgency of
             None \<Rightarrow> []
           | Some u \<Rightarrow>
               (let region = (case fl_activeRegionNum flare of None \<Rightarrow> []
                              | Some n \<Rightarrow> if n = 0 then [] else '' from region '' @ numStr js n);
                    impact = impactFlare letter
                in [\<lparr>a_id = ''flare-'' @ fl_id flare,
                     a_type = alertType,
                     a_urgency = u,
                     a_title = cls @ '' Solar Flare'',
                     a_body = cls @ '' flare detected'' @ region @ '' at '' @
                       formatTime js (fl_beginTime flare) @ ''. '' @ impact,
                     a_timestamp = now,
                     a_sourceEventId = Some (fl_id flare)\<rparr>])))"

text \<open>Rule 3, the body of the loop over \<^verbatim>\<open>snapshot.recentHSS\<close>.\<close>

definition hssAlerts :: "jslib \<Rightarrow> string \<Rightarrow> CheckerState \<Rightarrow> HighSpeedStream \<Rightarrow> SpaceWeatherAlert list" where
  "hssAlerts js now prevState hss =
    (if hss_id hss \<in> set (knownHSSIds prevState) then []
     else [\<lparr>a_id = ''hss-'' @ hss_id hss,
            a_type = ''hss-arrival'',
            a_urgency = Moderate,
            a_title = ''Coronal Hole Stream Arriving'',
            a_body = ''High-speed stream detected at '' @ formatTime js (hss_eventTime hss) @
              ''. '' @ impactWind600,
            a_timestamp = now,
            a_sourceEventId = Some (hss_id hss)\<rparr>])"

text \<open>Rule 4, the Kp threshold crossings: one \<^verbatim>\<open>if / else if / else if\<close> chain.\<close>

definition kpAlerts :: "jslib \<Rightarrow> string \<Rightarrow> real \<Rightarrow> real \<Rightarrow> SpaceWeatherAlert list" where
  "kpAlerts js now kpv prevKp =
    (if kpv \<ge> 7 \<and> prevKp < 7 then
       (let kpInt = min \<lfloor>kpv\<rfloor> 9 in
        [\<lparr>a_id = ''kp-cross-7-'' @ now,
          a_type = ''kp-threshold'',
          a_urgency = Critical,
          a_title = ''Kp '' @ numStr js kpv @ '' '' @ emDash @ '' G'' @
            numStr js (of_int (min (kpInt - 4) 5)) @ '' Storm'',
          a_body = ''Kp index jumped to '' @ numStr js kpv @ '' (was '' @ numStr js prevKp @
            ''). '' @ impactKp kpInt,
          a_timestamp = now,
          a_sourceEventId = None\<rparr>])
     else if kpv \<ge> 5 \<and> prevKp < 5 then
       [\<lparr>a_id = ''kp-cross-5-'' @ now,
         a_type = ''kp-threshold'',
         a_urgency = High,
         a_title = ''Kp '' @ numStr js kpv @ '' '' @ emDash @ '' G1 Storm Threshold'',
         a_body = ''Kp index rose to '' @ numStr js kpv @ '' (was '' @ numStr js prevKp @
           ''). '' @ impactKp 5,
         a_timestamp = now,
         a_sourceEventId = None\<rparr>]
     else if kpv \<ge> 4 \<and> prevKp < 4 then
       [\<lparr>a_id = ''kp-cross-4-'' @ now,
         a_type = ''kp-elevated'',
         a_urgency = Info,
         a_title = ''Kp Elevated to '' @ numStr js kpv,
         a_body = impactKp 4,
         a_timestamp = now,
         a_sourceEventId = None\<rparr>]
     else [])"

text \<open>Rule 5, the southward Bz crossings.\<close>

definition bzAlerts :: "jslib \<Rightarrow> string \<Rightarrow> real \<Rightarrow> real \<Rightarrow> SpaceWeatherAlert list" where
  "bzAlerts js now bz prevBz =
    (if bz \<le> - 15 \<and> prevBz > - 15 then
       [\<lparr>a_id = ''bz-cross-15-'' @ now,
         a_type = ''bz-threshold'',
         a_urgency = High,
         a_title = ''Strong Southward Bz: '' @ toFixed1 js bz @ '' nT'',
         a_body = ''Magnetic field Bz dropped to '' @ toFixed1 js bz @ '' nT. '' @ impactBz15,
         a_timestamp = now,
         a_sourceEventId = None\<rparr>]
     else if bz \<le> - 10 \<and> prevBz > - 10 then
       [\<lparr>a_id = ''bz-cross-10-'' @ now,
         a_type = ''bz-threshold'',
         a_urgency = Moderate,
         a_title = ''Southward Bz: '' @ toFixed1 js bz @ '' nT'',
         a_body = ''Magnetic field Bz dropped to '' @ toFixed1 js bz @ '' nT. '' @ impactBz10,
         a_timestamp = now,
         a_sourceEventId = None\<rparr>]
     else [])"

text \<open>Rule 6, the solar wind speed crossings.\<close>

definition windAlerts :: "jslib \<Rightarrow> string \<Rightarrow> real \<Rightarrow> real \<Rightarrow> SpaceWeatherAlert list" where
  "windAlerts js now windSpeed prevSpeed =
    (if windSpeed \<ge> 700 \<and> prevSpeed < 700 then
       [\<lparr>a_id = ''wind-speed-700-'' @ now,
         a_type = ''wind-speed'',
         a_urgency = High,
         a_title = ''Solar Wind '' @ numStr js (of_int (mathRound windSpeed)) @ '' km/s'',
         a_body = ''Solar wind speed surged to '' @ numStr js (of_int (mathRound windSpeed)) @
           '' km/s (was '' @ numStr js (of_int (mathRound prevSpeed)) @ ''). '' @ impactWind700,
         a_timestamp = now,
         a_sourceEventId = None\<rparr>]
     else if windSpeed \<ge> 600 \<and> prevSpeed < 600 then
       [\<lparr>a_id = ''wind-speed-600-'' @ now,
         a_type = ''wind-speed'',
         a_urgency = Moderate,
         a_title = ''Solar Wind Elevated: '' @ numStr js (of_int (mathRound windSpeed)) @ '' km/s'',
         a_body = ''Solar wind speed rose to '' @ numStr js (of_int (mathRound windSpeed)) @
           '' km/s. '' @ impactWind600,
         a_timestamp = now,
         a_sourceEventId = None\<rparr>]
     else [])"

text \<open>Rule 7, the solar wind density spike.\<close>

definition densityAlerts :: "jslib \<Rightarrow> string \<Rightarrow> real \<Rightarrow> real \<Rightarrow> SpaceWeatherAlert list" where
  "densityAlerts js now density prevDensity =
    (if density \<ge> 20 \<and> prevDensity < 20 then
       [\<lparr>a_id = ''wind-density-20-'' @ now,
         a_type = ''wind-density'',
         a_urgency = Moderate,
         a_title = ''Density Spike: '' @ toFixed1 js density @ '' p/cm'' @ superThree,
         a_body = ''Solar wind density jumped to '' @ toFixed1 js density @ '' p/cm'' @ superThree @
           '' (was '' @ toFixed1 js prevDensity @ ''). May indicate incoming CME or shock front.'',
         a_timestamp = now,
         a_sourceEventId = None\<rparr>]
     else [])"

text \<open>Rule 8, the body of the loop over the active regions.\<close>

definition regionAlerts :: "jslib \<Rightarrow> string \<Rightarrow> CheckerState \<Rightarrow> ActiveRegion \<Rightarrow> SpaceWeatherAlert list" where
  "regionAlerts js now prevState region =
    (if regionNumber region \<in> set (knownRegionNumbers prevState) then []
     else if flareProb_M region < activeRegion_mFlareProb \<and>
             flareProb_X region < activeRegion_xFlareProb then []
     else
       (let magClass = (case magneticClass region of None \<Rightarrow> ''unknown''
                        | Some c \<Rightarrow> if c = [] then ''unknown'' else c)
        in [\<lparr>a_id = ''region-new-'' @ numStr js (regionNumber region),
             a_type = ''active-region'',
             a_urgency = Info,
             a_title = ''New Active Region '' @ numStr js (regionNumber region),
             a_body = magClass @ '' class at '' @ ar_location region @ ''. M-flare: '' @
               numStr js (flareProb_M region) @ ''%, X-flare: '' @
               numStr js (flareProb_X region) @ ''%.'',
             a_timestamp = now,
             a_sourceEventId = None\<rparr>]))"

text \<open>
  Rule 9, the all-clear notifications: three independent \<^verbatim>\<open>if\<close>s (the branch for a
  drop from Kp 7 is empty in the source).
\<close>

definition allClearAlerts :: "jslib \<Rightarrow> string \<Rightarrow> CheckerState \<Rightarrow> real \<Rightarrow> real \<Rightarrow> real \<Rightarrow> SpaceWeatherAlert list" where
  "allClearAlerts js now prevState kpv bz windSpeed =
    (if kpWasAbove5 prevState \<and> kpv < 5 then
       [\<lparr>a_id = ''all-clear-kp5-'' @ now,
         a_type = ''all-clear'',
         a_urgency = Moderate,
         a_title = ''Kp Returning to Normal: '' @ numStr js kpv,
         a_body = ''Geomagnetic storm conditions subsiding. Kp dropped back to '' @ numStr js kpv @ ''.'',
         a_timestamp = now,
         a_sourceEventId = None\<rparr>]
     else []) @
    (if bzWasBelow15 prevState \<and> bz > - 10 then
       [\<lparr>a_id = ''all-clear-bz15-'' @ now,
         a_type = ''all-clear'',
         a_urgency = Moderate,
         a_title = ''Bz Recovering: '' @ toFixed1 js bz @ '' nT'',
         a_body = ''Magnetic field returning northward. Strong geoeffective conditions easing.'',
         a_timestamp = now,
         a_sourceEventId = None\<rparr>]
     else []) @
    (if windWasAbove700 prevState \<and> windSpeed < 600 then
       [\<lparr>a_id = ''all-clear-wind700-'' @ now,
         a_type = ''all-clear'',
         a_urgency = Moderate,
         a_title = ''Solar Wind Easing: '' @ numStr js (of_int (mathRound windSpeed)) @ '' km/s'',
         a_body = ''High-speed solar wind conditions subsiding.'',
         a_timestamp = now,
         a_sourceEventId = None\<rparr>]
     else [])"

text \<open>
  The evaluator: the alerts of the nine rules, in the order the source pushes them.
  \<open>now\<close> is the ISO string the evaluator takes once at its start, \<open>nowMs\<close> the
  clock \<open>formatETA\<close> reads.
\<close>

definition evaluateAlerts ::
  "jslib \<Rightarrow> string \<Rightarrow> int \<Rightarrow> SpaceWeatherSnapshot \<Rightarrow> ActiveRegion list \<Rightarrow> CheckerState \<Rightarrow>
   SpaceWeatherAlert list" where
  "evaluateAlerts js now nowMs snapshot activeRegions prevState =
    (let bz = (case magneticField snapshot of None \<Rightarrow> 0 | Some m \<Rightarrow> mf_bz m);
         windSpeed = (case solarWind snapshot of None \<Rightarrow> 0 | Some w \<Rightarrow> sw_speed w);
         density = (case solarWind snapshot of None \<Rightarrow> 0 | Some w \<Rightarrow> sw_density w)
     in concat (map (cmeAlerts js now nowMs prevState) (earthDirectedCMEs snapshot)) @
        concat (map (flareAlerts js now prevState) (recentFlares snapshot)) @
        concat (map (hssAlerts js now prevState) (recentHSS snapshot)) @
        kpAlerts js now (kp snapshot) (lastKp prevState) @
        bzAlerts js now bz (lastBz prevState) @
        windAlerts js now windSpeed (lastWindSpeed prevState) @
        densityAlerts js now density (lastWindDensity prevState) @
        (if activeRegionAlerts_enabled
         then concat (map (regionAlerts js now prevState) activeRegions) else []) @
        allClearAlerts js now prevState (kp snapshot) bz windSpeed)"

section \<open>State store (src/scripts/state.ts)\<close>

definition DEFAULT_STATE :: CheckerState where
  "DEFAULT_STATE =
    \<lparr>schemaVersion = 1,
     lastRunAt = ''1970-01-01T00:00:00.000Z'',
     lastKp = 0, lastBz = 0, lastWindSpeed = 0, lastWindDensity = 0,
     kpWasAbove5 = False, kpWasAbove7 = False, bzWasBelow10 = False, bzWasBelow15 = False,
     windWasAbove600 = False, windWasAbove700 = False, densityWasAbove20 = False,
     knownCMEs = [], knownFlareIds = [], knownHSSIds = [], knownRegionNumbers = [],
     knownAlertProductIds = [], lastCooldowns = [], dataHealth = [], alertsSent = []\<rparr>"

subsection \<open>Cooldown check\<close>

text \<open>
  \<open>nowMs\<close> is the \<^verbatim>\<open>Date.now()\<close> of the call. A missing or zero table entry, a missing
  or empty \<^verbatim>\<open>lastCooldowns\<close> entry and an entry that does not parse (the elapsed time is
  then NaN) all answer \<^verbatim>\<open>false\<close>.
\<close>

definition isCoolingDown :: "jslib \<Rightarrow> int \<Rightarrow> string \<Rightarrow> CheckerState \<Rightarrow> bool" where
  "isCoolingDown js nowMs alertType state =
    (case map_of cooldowns alertType of
       None \<Rightarrow> False
     | Some cooldownMinutes \<Rightarrow>
         if cooldownMinutes = 0 then False
         else
           (case map_of (lastCooldowns state) alertType of
              None \<Rightarrow> False
            | Some lastSent \<Rightarrow>
                if lastSent = [] then False
                else
                  (case getTime js lastSent of
                     None \<Rightarrow> False
                   | Some t \<Rightarrow> nowMs - t < cooldownMinutes * 60 * 1000)))"

text \<open>
  \<^verbatim>\<open>state.lastCooldowns[alertType] = new Date().toISOString()\<close>: an existing key keeps
  its place, a new key goes last.
\<close>

definition recordCooldown :: "jslib \<Rightarrow> int \<Rightarrow> string \<Rightarrow> CheckerState \<Rightarrow> CheckerState" where
  "recordCooldown js nowMs alertType state =
    state\<lparr>lastCooldowns := AList.update alertType (toISOString js nowMs) (lastCooldowns state)\<rparr>"

subsection \<open>JSON values and files\<close>

datatype json =
  JNull | JBool bool | JNum real | JStr string | JArr "json list" | JObj "(string \<times> json) list"

text \<open>
  The text of a file is represented by what \<^verbatim>\<open>JSON.parse\<close> makes of it: the value it
  denotes, or nothing when parsing throws. \<^verbatim>\<open>JSON.stringify\<close> of a value is then the
  text that denotes it. Numbers are finite, so no number is written as \<^verbatim>\<open>null\<close>.
\<close>

datatype filetext = Text json | Garbage

definition JSON_parse :: "filetext \<Rightarrow> json option" where
  "JSON_parse raw = (case raw of Text v \<Rightarrow> Some v | Garbage \<Rightarrow> None)"

definition JSON_stringify :: "json \<Rightarrow> filetext" where
  "JSON_stringify v = Text v"

text \<open>The two files of the checker: absent, or present with a text.\<close>

record FS =
  stateFile :: "filetext option"
  lockFile :: "filetext option"

text \<open>
  How \<^verbatim>\<open>JSON.stringify\<close> lays out the typed values: the properties in declaration
  order, \<^verbatim>\<open>null\<close> written as null, a property that is \<^verbatim>\<open>undefined\<close> (the optional
  \<^verbatim>\<open>sourceEventId\<close> and \<^verbatim>\<open>lastError\<close>) left out.
\<close>

definition jsonOpt :: "('a \<Rightarrow> json) \<Rightarrow> 'a option \<Rightarrow> json" where
  "jsonOpt f v = (case v of None \<Rightarrow> JNull | Some x \<Rightarrow> f x)"

definition urgencyName :: "AlertUrgency \<Rightarrow> string" where
  "urgencyName u =
    (case u of Critical \<Rightarrow> ''critical'' | High \<Rightarrow> ''high'' | Moderate \<Rightarrow> ''moderate''
     | Info \<Rightarrow> ''info'')"

definition alertJson :: "SpaceWeatherAlert \<Rightarrow> json" where
  "alertJson a =
    JObj ([(''id'', JStr (a_id a)), (''type'', JStr (a_type a)),
           (''urgency'', JStr (urgencyName (a_urgency a))), (''title'', JStr (a_title a)),
           (''body'', JStr (a_body a)), (''timestamp'', JStr (a_timestamp a))] @
          (case a_sourceEventId a of None \<Rightarrow> [] | Some e \<Rightarrow> [(''sourceEventId'', JStr e)]))"

definition knownCMEJson :: "KnownCME \<Rightarrow> json" where
  "knownCMEJson k =
    JObj [(''id'', JStr (k_id k)), (''predictedKp'', jsonOpt JNum (k_predictedKp k)),
          (''predictedArrival'', jsonOpt JStr (k_predictedArrival k))]"

definition dataHealthJson :: "DataHealthEntry \<Rightarrow> json" where
  "dataHealthJson d =
    JObj ([(''source'', JStr (dh_source d)), (''ok'', JBool (dh_ok d)),
           (''lastSuccess'', JStr (dh_lastSuccess d))] @
          (case dh_lastError d of None \<Rightarrow> [] | Some e \<Rightarrow> [(''lastError'', JStr e)]))"

definition stateProps :: "CheckerState \<Rightarrow> (string \<times> json) list" where
  "stateProps st =
    [(''schemaVersion'', JNum (schemaVersion st)),
     (''lastRunAt'', JStr (lastRunAt st)),
     (''lastKp'', JNum (lastKp st)),
     (''lastBz'', JNum (lastBz st)),
     (''lastWindSpeed'', JNum (lastWindSpeed st)),
     (''lastWindDensity'', JNum (lastWindDensity st)),
     (''kpWasAbove5'', JBool (kpWasAbove5 st)),
     (''kpWasAbove7'', JBool (kpWasAbove7 st)),
     (''bzWasBelow10'', JBool (bzWasBelow10 st)),
     (''bzWasBelow15'', JBool (bzWasBelow15 st)),
     (''windWasAbove600'', JBool (windWasAbove600 st)),
     (''windWasAbove700'', JBool (windWasAbove700 st)),
     (''densityWasAbove20'', JBool (densityWasAbove20 st)),
     (''knownCMEs'', JArr (map knownCMEJson (knownCMEs st))),
     (''knownFlareIds'', JArr (map JStr (knownFlareIds st))),
     (''knownHSSIds'', JArr (map JStr (knownHSSIds st))),
     (''knownRegionNumbers'', JArr (map JNum (knownRegionNumbers st))),
     (''knownAlertProductIds'', JArr (map JStr (knownAlertProductIds st))),
     (''lastCooldowns'', JObj (map (\<lambda>(k, v). (k, JStr v)) (lastCooldowns st))),
     (''dataHealth'', JArr (map dataHealthJson (dataHealth st))),
     (''alertsSent'', JArr (map alertJson (alertsSent st)))]"

definition stateJson :: "CheckerState \<Rightarrow> json" where
  "stateJson st = JObj (stateProps st)"

text \<open>Decimal digits of a natural number, the property names of array elements.\<close>

fun showNat :: "nat \<Rightarrow> string" where
  "showNat n =
    (if n < 10 then [char_of (48 + n)] else showNat (n div 10) @ [char_of (48 + n mod 10)])"

declare showNat.simps [simp del]

text \<open>
  The own enumerable properties that an object spread \<^verbatim>\<open>{...v}\<close> copies: those of an
  object, the indexed elements of an array, the indexed characters of a string, and none
  of null, a number or a boolean.
\<close>

definition ownProps :: "json \<Rightarrow> (string \<times> json) list" where
  "ownProps v =
    (case v of
       JObj kvs \<Rightarrow> kvs
     | JArr xs \<Rightarrow> zip (map showNat [0..<length xs]) xs
     | JStr cs \<Rightarrow> zip (map showNat [0..<length cs]) (map (\<lambda>c. JStr [c]) cs)
     | _ \<Rightarrow> [])"

subsection \<open>Load and save\<close>

text \<open>
  \<open>loadState\<close> gives the object it returns as the map from its property names to their
  values: \<^verbatim>\<open>{ ...DEFAULT_STATE, ...parsed }\<close> has the properties of the defaults,
  overridden and extended by those of the parsed value. \<open>readOk\<close> says whether
  \<^verbatim>\<open>readFileSync\<close> succeeds; a failure is caught like a parse error.
\<close>

definition loadState :: "bool \<Rightarrow> FS \<Rightarrow> (string \<rightharpoonup> json)" where
  "loadState readOk fs =
    (case stateFile fs of
       None \<Rightarrow> map_of (stateProps DEFAULT_STATE)
     | Some raw \<Rightarrow>
         if \<not> readOk then map_of (stateProps DEFAULT_STATE)
         else
           (case JSON_parse raw of
              None \<Rightarrow> map_of (stateProps DEFAULT_STATE)
            | Some parsed \<Rightarrow> map_of (stateProps DEFAULT_STATE) ++ map_of (ownProps parsed)))"

datatype SaveOutcome = Saved | Aborted | Threw

text \<open>
  \<open>saveState\<close> caps the history of the state it is given (the caller's object), writes
  the text to a temporary file and renames it over the state file. \<open>writeOk\<close> says
  whether the write and the rename succeed; when they do not, the state file is as it was
  and the error is thrown again. The temporary file never outlives the call and is not
  part of \<open>FS\<close>. The result is the outcome, the state as the call leaves it, and the
  files.
\<close>

definition saveState :: "bool \<Rightarrow> CheckerState \<Rightarrow> FS \<Rightarrow> SaveOutcome \<times> CheckerState \<times> FS" where
  "saveState writeOk state fs =
    (let state' = state\<lparr>alertsSent := sliceLast maxAlertHistory (alertsSent state)\<rparr>;
         json = JSON_stringify (stateJson state')
     in case JSON_parse json of
          None \<Rightarrow> (Aborted, state', fs)
        | Some _ \<Rightarrow>
            if writeOk then (Saved, state', fs\<lparr>stateFile := Some json\<rparr>)
            else (Threw, state', fs))"

subsection \<open>Lock file\<close>

datatype js_error = TypeError

text \<open>
  \<^verbatim>\<open>v.pid\<close> on a parsed value: a TypeError on null, the property of an object (or
  \<^verbatim>\<open>undefined\<close>, here \<open>None\<close>), and \<^verbatim>\<open>undefined\<close> on every other value.
\<close>

definition pidOf :: "json \<Rightarrow> js_error + json option" where
  "pidOf v =
    (case v of
       JNull \<Rightarrow> Inl TypeError
     | JObj kvs \<Rightarrow> Inr (map_of kvs ''pid'')
     | _ \<Rightarrow> Inr None)"

definition lockJson :: "int \<Rightarrow> string \<Rightarrow> string \<Rightarrow> json" where
  "lockJson pid ts host =
    JObj [(''pid'', JNum (of_int pid)), (''timestamp'', JStr ts), (''hostname'', JStr host)]"

text \<open>
  \<open>releaseLock\<close> for the process \<open>pid\<close>. \<open>readOk\<close> and \<open>unlinkOk\<close> say whether
  \<^verbatim>\<open>readFileSync\<close> and \<^verbatim>\<open>unlinkSync\<close> succeed; every exception is swallowed by the
  \<^verbatim>\<open>catch\<close>.
\<close>

definition releaseLock :: "bool \<Rightarrow> bool \<Rightarrow> int \<Rightarrow> FS \<Rightarrow> FS" where
  "releaseLock readOk unlinkOk pid fs =
    (case lockFile fs of
       None \<Rightarrow> fs
     | Some raw \<Rightarrow>
         if \<not> readOk then fs
         else
           (case JSON_parse raw of
              None \<Rightarrow> fs
            | Some lock \<Rightarrow>
                (case pidOf lock of
                   Inl _ \<Rightarrow> fs
                 | Inr p \<Rightarrow>
                     if p = Some (JNum (of_int pid))
                     then (if unlinkOk then fs\<lparr>lockFile := None\<rparr> else fs)
                     else fs)))"

section \<open>Notification dispatch (src/scripts/notify.ts)\<close>

text \<open>
  \<open>hour\<close> is \<^verbatim>\<open>new Date().getHours()\<close>, the local hour of the call. The record
  \<^verbatim>\<open>CONFIG.quietHours\<close> is a parameter of the dispatcher; \<open>quietHours\<close> above is the
  value the configuration ships.
\<close>

definition isQuietHours :: "QuietHours \<Rightarrow> int \<Rightarrow> bool" where
  "isQuietHours q hour =
    (if \<not> qh_enabled q then False
     else if qh_start q > qh_end q then hour \<ge> qh_start q \<or> hour < qh_end q
     else hour \<ge> qh_start q \<and> hour < qh_end q)"

text \<open>
  What \<open>dispatchAlert\<close> does is the list of its calls to the senders: the channel and
  the alert handed to it. A sender catches its own failures.
\<close>

definition dispatchAlert :: "QuietHours \<Rightarrow> int \<Rightarrow> SpaceWeatherAlert \<Rightarrow> (Channel \<times> SpaceWeatherAlert) list" where
  "dispatchAlert q hour alert =
    (if a_urgency alert \<noteq> Critical \<and> isQuietHours q hour then []
     else map (\<lambda>channel. (channel, alert)) (channels (a_urgency alert)))"

fun joinWith :: "string \<Rightarrow> string list \<Rightarrow> string" where
  "joinWith sep [] = []"
| "joinWith sep [x] = x"
| "joinWith sep (x # y # ys) = x @ sep @ joinWith sep (y # ys)"

definition dispatchAlerts ::
  "jslib \<Rightarrow> QuietHours \<Rightarrow> int \<Rightarrow> int \<Rightarrow> SpaceWeatherAlert list \<Rightarrow> (Channel \<times> SpaceWeatherAlert) list" where
  "dispatchAlerts js q hour nowMs alerts =
    (let infoAlerts = filter (\<lambda>a. a_urgency a = Info) alerts;
         otherAlerts = filter (\<lambda>a. a_urgency a \<noteq> Info) alerts
     in concat (map (dispatchAlert q hour) otherAlerts) @
        (if length infoAlerts = 1 then dispatchAlert q hour (hd infoAlerts)
         else if length infoAlerts > 1 then
           dispatchAlert q hour
             \<lparr>a_id = ''info-batch-'' @ numStr js (of_int nowMs),
              a_type = ''info-batch'',
              a_urgency = Info,
              a_title = numStr js (of_nat (length infoAlerts)) @ '' Space Weather Updates'',
              a_body = joinWith ('' '' @ middleDot @ '' '') (map a_title infoAlerts),
              a_timestamp = toISOString js nowMs,
              a_sourceEventId = None\<rparr>
         else []))"

section \<open>One tick of the checker (src/scripts/checker.ts, main)\<close>

text \<open>
  The clock reads of one tick, in the order the program makes them: the timestamp of the
  snapshot (\<open>c_runAt\<close>), the evaluator's \<open>now\<close> and the clock of \<open>formatETA\<close>, the
  clock of the cooldown filter, the local hour and the clock of the dispatcher, and the
  clock of \<open>recordCooldown\<close>. The reads inside one loop are one read.
\<close>

record TickClock =
  c_runAt :: string
  c_evalAt :: string
  c_evalMs :: int
  c_filterMs :: int
  c_hour :: int
  c_dispatchMs :: int
  c_recordMs :: int

definition alertsToSend ::
  "jslib \<Rightarrow> TickClock \<Rightarrow> SpaceWeatherSnapshot \<Rightarrow> ActiveRegion list \<Rightarrow> CheckerState \<Rightarrow>
   SpaceWeatherAlert list" where
  "alertsToSend js clk snapshot activeRegions state =
    filter (\<lambda>alert. \<not> isCoolingDown js (c_filterMs clk) (a_type alert) state)
      (evaluateAlerts js (c_evalAt clk) (c_evalMs clk) snapshot activeRegions state)"

definition recordCooldowns :: "jslib \<Rightarrow> int \<Rightarrow> SpaceWeatherAlert list \<Rightarrow> CheckerState \<Rightarrow> CheckerState" where
  "recordCooldowns js nowMs sent state =
    fold (\<lambda>alert st. recordCooldown js nowMs (a_type alert) st) sent state"

definition updateState ::
  "string \<Rightarrow> SpaceWeatherSnapshot \<Rightarrow> ActiveRegion list \<Rightarrow> DataHealthEntry list \<Rightarrow>
   SpaceWeatherAlert list \<Rightarrow> CheckerState \<Rightarrow> CheckerState" where
  "updateState now snapshot activeRegions health sent state =
    (let bz = map_option mf_bz (magneticField snapshot);
         speed = map_option sw_speed (solarWind snapshot);
         density = map_option sw_density (solarWind snapshot)
     in state
        \<lparr>lastRunAt := now,
         lastKp := kp snapshot,
         lastBz := orElse bz (lastBz state),
         lastWindSpeed := orElse speed (lastWindSpeed state),
         lastWindDensity := orElse density (lastWindDensity state),
         kpWasAbove5 := (kp snapshot \<ge> 5),
         kpWasAbove7 := (kp snapshot \<ge> 7),
         bzWasBelow10 := (orElse bz 0 \<le> - 10),
         bzWasBelow15 := (orElse bz 0 \<le> - 15),
         windWasAbove600 := (orElse speed 0 \<ge> 600),
         windWasAbove700 := (orElse speed 0 \<ge> 700),
         densityWasAbove20 := (orElse density 0 \<ge> 20),
         knownCMEs := map (\<lambda>c. \<lparr>k_id = cme_id c, k_predictedKp = cme_predictedKp c,
                                   k_predictedArrival = cme_predictedArrival c\<rparr>)
                        (earthDirectedCMEs snapshot),
         knownFlareIds := map fl_id (recentFlares snapshot),
         knownHSSIds := map hss_id (recentHSS snapshot),
         knownRegionNumbers := map regionNumber activeRegions,
         knownAlertProductIds := map na_productId (activeAlerts snapshot),
         dataHealth := health,
         alertsSent := alertsSent state @ sent\<rparr>)"

text \<open>
  The tick from the evaluation to the save (the body of the \<^verbatim>\<open>try\<close> up to
  \<^verbatim>\<open>saveState\<close>): evaluate, filter by cooldown, dispatch, record the cooldowns, update
  the state, append the alerts to the history and save. \<open>sendOk\<close> says which calls to
  a sender get their message through; the tick does not look at it.
\<close>

record TickResult =
  r_sent :: "SpaceWeatherAlert list"
  r_delivered :: "(Channel \<times> SpaceWeatherAlert) list"
  r_outcome :: SaveOutcome
  r_state :: CheckerState
  r_fs :: FS

definition runTick ::
  "jslib \<Rightarrow> TickClock \<Rightarrow> QuietHours \<Rightarrow> (Channel \<times> SpaceWeatherAlert \<Rightarrow> bool) \<Rightarrow> bool \<Rightarrow>
   SpaceWeatherSnapshot \<Rightarrow> ActiveRegion list \<Rightarrow> DataHealthEntry list \<Rightarrow> CheckerState \<Rightarrow> FS \<Rightarrow>
   TickResult" where
  "runTick js clk q sendOk writeOk snapshot activeRegions health state fs =
    (let sent = alertsToSend js clk snapshot activeRegions state;
         calls = (if length sent > 0 then dispatchAlerts js q (c_hour clk) (c_dispatchMs clk) sent else []);
         state1 = (if length sent > 0 then recordCooldowns js (c_recordMs clk) sent state else state);
         state2 = updateState (c_runAt clk) snapshot activeRegions health sent state1;
         saved = saveState writeOk state2 fs
     in \<lparr>r_sent = sent,
         r_delivered = filter sendOk calls,
         r_outcome = fst saved,
         r_state = fst (snd saved),
         r_fs = snd (snd saved)\<rparr>)"

section \<open>Prediction store (lib/predictions, in src/unnamed/part_004)\<close>

datatype PredictionStatus = Pending | Hit | Miss

record MatchedEvent =
  ev_type :: string
  ev_description :: string
  ev_timestamp :: string

record Prediction =
  p_id :: string
  p_timestamp :: string
  p_note :: "string option"
  p_status :: PredictionStatus
  p_verifiedAt :: "string option"
  p_windowHours :: int
  p_windowEnd :: string
  p_matchedEvents :: "MatchedEvent list"

record PredictionConfig =
  verificationWindowHours :: int
  baseRate :: "real option"
  baseRateComputedAt :: "string option"
  baseRateSampleWindows :: int
  cooldownHours :: int
  maxPredictions :: int

record PredictionState =
  ps_schemaVersion :: int
  predictions :: "Prediction list"
  config :: PredictionConfig

definition DEFAULT_CONFIG :: PredictionConfig where
  "DEFAULT_CONFIG =
    \<lparr>verificationWindowHours = 48, baseRate = None, baseRateComputedAt = None,
     baseRateSampleWindows = 0, cooldownHours = 6, maxPredictions = 500\<rparr>"

text \<open>\<^verbatim>\<open>a < b\<close> on two clock values, false as soon as one of them is NaN.\<close>

definition jsLess :: "int option \<Rightarrow> int option \<Rightarrow> bool" where
  "jsLess a b = (case a of None \<Rightarrow> False | Some x \<Rightarrow> (case b of None \<Rightarrow> False | Some y \<Rightarrow> x < y))"

definition isWithinCooldown :: "jslib \<Rightarrow> int \<Rightarrow> PredictionState \<Rightarrow> bool" where
  "isWithinCooldown js nowMs state =
    (if length (predictions state) = 0 then False
     else
       (case getTime js (p_timestamp (last (predictions state))) of
          None \<Rightarrow> False
        | Some t \<Rightarrow> nowMs - t < cooldownHours (config state) * 60 * 60 * 1000))"

text \<open>
  \<open>savePredictions\<close> caps the list and stores the state. The store (the local file or
  the key of the key/value store) holds a prediction state or nothing; \<open>saveOk\<close> says
  whether the write succeeds, and a failed write throws.
\<close>

definition capPredictions :: "PredictionState \<Rightarrow> PredictionState" where
  "capPredictions state =
    (if int (length (predictions state)) > maxPredictions (config state)
     then state\<lparr>predictions := sliceLast (maxPredictions (config state)) (predictions state)\<rparr>
     else state)"

definition savePredictions ::
  "bool \<Rightarrow> PredictionState \<Rightarrow> PredictionState option \<Rightarrow> SaveOutcome \<times> PredictionState option" where
  "savePredictions saveOk state store =
    (if saveOk then (Saved, Some (capPredictions state)) else (Threw, store))"

section \<open>Prediction endpoint (POST of the predictions route, in src/app/page.tsx)\<close>

datatype Response =
  Status401
| Status429 (r_message: string) (r_cooldownEnds: string)
| Status200 Prediction
| Status500

text \<open>\<open>token\<close> is the environment variable, \<open>auth\<close> the Authorization header.\<close>

definition isAuthorized :: "string option \<Rightarrow> string option \<Rightarrow> bool" where
  "isAuthorized token auth =
    (case token of
       None \<Rightarrow> True
     | Some t \<Rightarrow> if t = [] then True else auth = Some (''Bearer '' @ t))"

text \<open>
  The request body as \<^verbatim>\<open>await request.json().catch(() => ({}))\<close> leaves it: the parsed
  JSON value, or nothing when the body is not JSON and the empty object stands in.
  \<open>bodyNote\<close> is the line that reads \<^verbatim>\<open>body.note\<close>: on the value null the property
  access throws a TypeError; a string under the key note is trimmed and cut to 200 code
  units; anything else gives null.
\<close>

definition bodyNote :: "jslib \<Rightarrow> json option \<Rightarrow> js_error + string option" where
  "bodyNote js body =
    (case body of
       None \<Rightarrow> Inr None
     | Some v \<Rightarrow>
         (case v of
            JNull \<Rightarrow> Inl TypeError
          | JObj kvs \<Rightarrow>
              (case map_of kvs ''note'' of
                 None \<Rightarrow> Inr None
               | Some w \<Rightarrow>
                   (case w of
                      JStr n \<Rightarrow> Inr (Some (slice0 js 200 (trim js n)))
                    | _ \<Rightarrow> Inr None))
          | _ \<Rightarrow> Inr None))"

text \<open>
  \<open>POST\<close>, in the order of the handler: the authorization, the body, the load, the
  cooldown check, the new prediction and the save. \<open>state\<close> is the value of
  \<^verbatim>\<open>await loadPredictions()\<close>, whatever the store gave (a load never throws), \<open>uuid\<close>
  the result of \<^verbatim>\<open>randomUUID()\<close>, \<open>checkMs\<close> the clock of the cooldown check and
  \<open>nowMs\<close> the clock of the submission. An exception that leaves the handler (the
  TypeError of a null body, a failed write) is the response 500. The result is the
  response and the store.
\<close>

definition POST ::
  "jslib \<Rightarrow> int \<Rightarrow> int \<Rightarrow> string \<Rightarrow> string option \<Rightarrow> string option \<Rightarrow> json option \<Rightarrow> bool \<Rightarrow>
   PredictionState \<Rightarrow> PredictionState option \<Rightarrow> Response \<times> PredictionState option" where
  "POST js checkMs nowMs uuid token auth body saveOk state store =
    (if \<not> isAuthorized token auth then (Status401, store)
     else
       (case bodyNote js body of
          Inl _ \<Rightarrow> (Status500, store)
        | Inr note \<Rightarrow>
            if isWithinCooldown js checkMs state then
              (case getTime js (p_timestamp (last (predictions state))) of
                 None \<Rightarrow> (Status500, store)
               | Some t \<Rightarrow>
                   (let cooldownEnds = t + cooldownHours (config state) * 60 * 60 * 1000
                    in (Status429
                          (''Too soon '' @ garbledDash @ '' wait until '' @
                           toLocaleTimeString js cooldownEnds)
                          (toISOString js cooldownEnds),
                        store)))
            else
              (let windowEnd = nowMs + verificationWindowHours (config state) * 60 * 60 * 1000;
                   prediction =
                     \<lparr>p_id = uuid,
                      p_timestamp = toISOString js nowMs,
                      p_note = (case note of None \<Rightarrow> None
                                | Some n \<Rightarrow> if n = [] then None else Some n),
                      p_status = Pending,
                      p_verifiedAt = None,
                      p_windowHours = verificationWindowHours (config state),
                      p_windowEnd = toISOString js windowEnd,
                      p_matchedEvents = []\<rparr>;
                   saved = savePredictions saveOk
                             (state\<lparr>predictions := predictions state @ [prediction]\<rparr>) store
               in if fst saved = Saved then (Status200 prediction, snd saved)
                  else (Status500, snd saved))))"

section \<open>Prediction verification (scripts/verify-predictions, in src/unnamed/part_005)\<close>

text \<open>
  The accumulator of \<open>findMatchingEvents\<close>: the array \<^verbatim>\<open>events\<close> and the set
  \<^verbatim>\<open>seen\<close> of keys. \<open>pushEvent\<close> is the guarded push that ends each loop body.
\<close>

definition pushEvent ::
  "string \<Rightarrow> MatchedEvent \<Rightarrow> MatchedEvent list \<times> string set \<Rightarrow> MatchedEvent list \<times> string set" where
  "pushEvent key event acc =
    (if key \<in> snd acc then acc else (fst acc @ [event], insert key (snd acc)))"

text \<open>\<^verbatim>\<open>t < start || t > end\<close>, the test that skips an item.\<close>

definition outsideWindow :: "int option \<Rightarrow> int option \<Rightarrow> int option \<Rightarrow> bool" where
  "outsideWindow t start endMs = (jsLess t start \<or> jsLess endMs t)"

definition alertEvent :: "SpaceWeatherAlert \<Rightarrow> MatchedEvent option" where
  "alertEvent alert =
    (if a_type alert = ''flare-m'' \<or> a_type alert = ''flare-x'' then
       Some \<lparr>ev_type = ''flare'', ev_description = a_title alert, ev_timestamp = a_timestamp alert\<rparr>
     else if a_type alert = ''kp-threshold'' \<or> a_type alert = ''kp-elevated'' then
       Some \<lparr>ev_type = ''kp'', ev_description = a_title alert, ev_timestamp = a_timestamp alert\<rparr>
     else if a_type alert = ''cme-earth'' then
       Some \<lparr>ev_type = ''cme'', ev_description = a_title alert, ev_timestamp = a_timestamp alert\<rparr>
     else if a_type alert = ''bz-threshold'' then
       Some \<lparr>ev_type = ''bz'', ev_description = a_title alert, ev_timestamp = a_timestamp alert\<rparr>
     else if a_type alert = ''wind-speed'' then
       Some \<lparr>ev_type = ''wind'', ev_description = a_title alert, ev_timestamp = a_timestamp alert\<rparr>
     else None)"

definition alertStep ::
  "jslib \<Rightarrow> int option \<Rightarrow> int option \<Rightarrow> SpaceWeatherAlert \<Rightarrow>
   MatchedEvent list \<times> string set \<Rightarrow> MatchedEvent list \<times> string set" where
  "alertStep js start endMs alert acc =
    (if outsideWindow (getTime js (a_timestamp alert)) start endMs then acc
     else
       (case alertEvent alert of
          None \<Rightarrow> acc
        | Some event \<Rightarrow> pushEvent (ev_type event @ ''-'' @ ev_timestamp event) event acc))"

definition flareStep ::
  "jslib \<Rightarrow> int option \<Rightarrow> int option \<Rightarrow> SolarFlare \<Rightarrow>
   MatchedEvent list \<times> string set \<Rightarrow> MatchedEvent list \<times> string set" where
  "flareStep js start endMs flare acc =
    (if outsideWindow (getTime js (fl_beginTime flare)) start endMs then acc
     else if startsWith (fl_classType flare) ''M'' \<or> startsWith (fl_classType flare) ''X'' then
       pushEvent (''flare-'' @ fl_beginTime flare)
         \<lparr>ev_type = ''flare'', ev_description = fl_classType flare @ '' Flare'',
          ev_timestamp = fl_beginTime flare\<rparr> acc
     else acc)"

definition stormStep ::
  "jslib \<Rightarrow> int option \<Rightarrow> int option \<Rightarrow> GeomagneticStorm \<Rightarrow>
   MatchedEvent list \<times> string set \<Rightarrow> MatchedEvent list \<times> string set" where
  "stormStep js start endMs storm acc =
    (if outsideWindow (getTime js (st_startTime storm)) start endMs then acc
     else if st_kpIndex storm \<ge> 5 then
       pushEvent (''kp-'' @ st_startTime storm)
         \<lparr>ev_type = ''kp'',
          ev_description = ''Kp '' @ numStr js (st_kpIndex storm) @ '' ('' @ st_gScale storm @ '')'',
          ev_timestamp = st_startTime storm\<rparr> acc
     else acc)"

definition cmeStep ::
  "jslib \<Rightarrow> int option \<Rightarrow> int option \<Rightarrow> CME \<Rightarrow>
   MatchedEvent list \<times> string set \<Rightarrow> MatchedEvent list \<times> string set" where
  "cmeStep js start endMs cme acc =
    (if outsideWindow (getTime js (cme_startTime cme)) start endMs then acc
     else
       pushEvent (''cme-'' @ cme_startTime cme)
         \<lparr>ev_type = ''cme'',
          ev_description = ''Earth-directed CME'' @
            (case cme_speed cme of None \<Rightarrow> []
             | Some v \<Rightarrow> if v = 0 then [] else '' ('' @ numStr js v @ '' km/s)''),
          ev_timestamp = cme_startTime cme\<rparr> acc)"

definition findMatchingEvents ::
  "jslib \<Rightarrow> Prediction \<Rightarrow> CheckerState \<Rightarrow> SpaceWeatherSnapshot \<Rightarrow> MatchedEvent list" where
  "findMatchingEvents js prediction state snapshot =
    (let start = getTime js (p_timestamp prediction);
         endMs = getTime js (p_windowEnd prediction);
         acc0 = ([], {});
         acc1 = fold (alertStep js start endMs) (alertsSent state) acc0;
         acc2 = fold (flareStep js start endMs) (recentFlares snapshot) acc1;
         acc3 = fold (stormStep js start endMs) (recentStorms snapshot) acc2;
         acc4 = fold (cmeStep js start endMs) (earthDirectedCMEs snapshot) acc3
     in fst acc4)"

text \<open>
  The two emoji of the result notification, as the bytes the source file holds (garbled
  in the same way as the dash).
\<close>

definition emojiHit :: string where
  "emojiHit = [CHR 0xC3, CHR 0xB0, CHR 0xC5, CHR 0xB8, CHR 0xC5, CHR 0xBD, CHR 0xC2, CHR 0xAF]"

definition emojiMiss :: string where
  "emojiMiss = [CHR 0xC3, CHR 0xB0, CHR 0xC5, CHR 0xB8, CHR 0xC2, CHR 0xA4, CHR 0xC2, CHR 0xB7]"

text \<open>The message \<open>notifyResult\<close> hands to the Signal sender for a verified prediction.\<close>

definition notifyResult :: "jslib \<Rightarrow> int \<Rightarrow> Prediction \<Rightarrow> SpaceWeatherAlert" where
  "notifyResult js nowMs prediction =
    (let predDate = toLocaleDateString js (p_timestamp prediction);
         n = length (p_matchedEvents prediction);
         message =
           (if p_status prediction = Hit then
              ''Your prediction from '' @ predDate @ '': HIT '' @ garbledDash @ '' '' @
              ev_description (hd (p_matchedEvents prediction)) @
              (if n > 1 then '' (+'' @ numStr js (of_nat (n - 1)) @ '' more)'' else [])
            else ''Your prediction from '' @ predDate @ '': MISS '' @ garbledDash @ '' quiet window'')
     in \<lparr>a_id = ''predict-result-'' @ p_id prediction,
         a_type = ''prediction-result'',
         a_urgency = Info,
         a_title = (if p_status prediction = Hit then emojiHit else emojiMiss) @ '' Solar Sense'',
         a_body = message,
         a_timestamp = toISOString js nowMs,
         a_sourceEventId = None\<rparr>)"

text \<open>
  The test at the head of the loop body: the prediction is pending and its window is not
  still open (\<^verbatim>\<open>new Date(windowEnd) > now\<close> is false).
\<close>

definition isDue :: "jslib \<Rightarrow> int \<Rightarrow> Prediction \<Rightarrow> bool" where
  "isDue js nowMs prediction =
    (p_status prediction = Pending \<and> \<not> jsLess (Some nowMs) (getTime js (p_windowEnd prediction)))"

text \<open>The loop body of \<open>verifyPendingPredictions\<close> on one prediction.\<close>

definition verifyOne ::
  "jslib \<Rightarrow> int \<Rightarrow> CheckerState \<Rightarrow> SpaceWeatherSnapshot \<Rightarrow> Prediction \<Rightarrow> Prediction" where
  "verifyOne js nowMs checkerState snapshot prediction =
    (if p_status prediction \<noteq> Pending then prediction
     else if jsLess (Some nowMs) (getTime js (p_windowEnd prediction)) then prediction
     else
       (let matched = findMatchingEvents js prediction checkerState snapshot
        in prediction
           \<lparr>p_matchedEvents := matched,
            p_status := (if length matched > 0 then Hit else Miss),
            p_verifiedAt := Some (toISOString js nowMs)\<rparr>))"

record VerifyResult =
  v_state :: PredictionState
  v_notified :: "SpaceWeatherAlert list"
  v_outcome :: "SaveOutcome option"
  v_store :: "PredictionState option"

text \<open>
  The verification pass on the loaded prediction state at the time \<open>nowMs\<close>: the state
  as the loop leaves it, the notifications sent, and the store, written only when a
  prediction changed.
\<close>

definition verifyPendingPredictions ::
  "jslib \<Rightarrow> int \<Rightarrow> bool \<Rightarrow> CheckerState \<Rightarrow> SpaceWeatherSnapshot \<Rightarrow> PredictionState \<Rightarrow>
   PredictionState option \<Rightarrow> VerifyResult" where
  "verifyPendingPredictions js nowMs saveOk checkerState snapshot predState store =
    (let verified = map (verifyOne js nowMs checkerState snapshot) (predictions predState);
         changed = (filter (isDue js nowMs) (predictions predState) \<noteq> []);
         predState' = predState\<lparr>predictions := verified\<rparr>;
         notified = map (\<lambda>p. notifyResult js nowMs (verifyOne js nowMs checkerState snapshot p))
                      (filter (isDue js nowMs) (predictions predState))
     in if changed then
          (let saved = savePredictions saveOk predState' store
           in \<lparr>v_state = predState', v_notified = notified, v_outcome = Some (fst saved),
               v_store = snd saved\<rparr>)
        else \<lparr>v_state = predState', v_notified = notified, v_outcome = None, v_store = store\<rparr>)"

section \<open>The rules in the words of the specification\<close>

text \<open>
  The definitions of this section are not translations of the source. They write down
  what the specification says, for comparison with the functions above.
\<close>

text \<open>The alerts of the given types, and what the rules fix of an alert.\<close>

definition ofTypes :: "string list \<Rightarrow> SpaceWeatherAlert list \<Rightarrow> SpaceWeatherAlert list" where
  "ofTypes ts xs = filter (\<lambda>a. a_type a \<in> set ts) xs"

definition alertKind :: "SpaceWeatherAlert \<Rightarrow> string \<times> AlertUrgency \<times> string option" where
  "alertKind a = (a_type a, a_urgency a, a_sourceEventId a)"

text \<open>
  Rule 1 of the specification for one Earth-directed CME: a CME whose id is not among
  the known ones gives one cme-earth alert; otherwise the known record decides whether a
  cme-revision alert is due. A missing predicted Kp counts as 0.
\<close>

definition spec_cmeRule :: "CheckerState \<Rightarrow> CME \<Rightarrow> (string \<times> AlertUrgency \<times> string option) list" where
  "spec_cmeRule K c =
    (let newKp = (case cme_predictedKp c of None \<Rightarrow> 0 | Some v \<Rightarrow> v) in
     case filter (\<lambda>k. k_id k = cme_id c) (knownCMEs K) of
       [] \<Rightarrow> [(''cme-earth'', if newKp \<ge> 7 then Critical else High, Some (cme_id c))]
     | k # _ \<Rightarrow>
         (let oldKp = (case k_predictedKp k of None \<Rightarrow> 0 | Some v \<Rightarrow> v) in
          if newKp - oldKp \<ge> 2 \<and> newKp \<ge> 5
          then [(''cme-revision'', if newKp \<ge> 7 then Critical else High, Some (cme_id c))]
          else []))"

text \<open>JavaScript's \<^verbatim>\<open>toUpperCase\<close> on the ASCII letters.\<close>

definition toUpperCase :: "string \<Rightarrow> string" where
  "toUpperCase s =
    map (\<lambda>c. if (97::nat) \<le> of_char c \<and> of_char c \<le> (122::nat)
             then char_of (of_char c - (32::nat)) else c) s"

text \<open>
  Rule 2 for one flare, with the conversion \<open>conv\<close> applied to the first character of
  the class: a known flare gives nothing, a letter X a critical flare-x alert, a letter M
  a high flare-m alert, any other class nothing.
\<close>

definition flareRuleWith ::
  "(string \<Rightarrow> string) \<Rightarrow> CheckerState \<Rightarrow> SolarFlare \<Rightarrow> (string \<times> AlertUrgency \<times> string option) list" where
  "flareRuleWith conv K f =
    (if fl_id f \<in> set (knownFlareIds K) then []
     else if conv (take 1 (fl_classType f)) = ''X'' then [(''flare-x'', Critical, Some (fl_id f))]
     else if conv (take 1 (fl_classType f)) = ''M'' then [(''flare-m'', High, Some (fl_id f))]
     else [])"

text \<open>The rule as the specification words it: the letter is taken in upper case.\<close>

definition spec_flareRule :: "CheckerState \<Rightarrow> SolarFlare \<Rightarrow> (string \<times> AlertUrgency \<times> string option) list" where
  "spec_flareRule K f = flareRuleWith toUpperCase K f"

text \<open>
  The quiet-hours window of the specification: the start hour belongs to it, the end
  hour does not, and a window whose start is after its end runs over midnight.
\<close>

definition spec_inQuietWindow :: "QuietHours \<Rightarrow> int \<Rightarrow> bool" where
  "spec_inQuietWindow q hour =
    (if qh_start q > qh_end q then qh_start q \<le> hour \<or> hour < qh_end q
     else qh_start q \<le> hour \<and> hour < qh_end q)"

text \<open>
  The lock file names the process \<open>pid\<close>: it exists, its text parses to an object, and
  the \<^verbatim>\<open>pid\<close> recorded there is \<open>pid\<close>.
\<close>

definition spec_ownsLock :: "int \<Rightarrow> FS \<Rightarrow> bool" where
  "spec_ownsLock pid fs =
    (case lockFile fs of
       Some (Text (JObj kvs)) \<Rightarrow> map_of kvs ''pid'' = Some (JNum (of_int pid))
     | _ \<Rightarrow> False)"

text \<open>
  The verification of predictions in the words of the specification. A timestamp lies
  in the window of a prediction when it parses and is neither before the submission nor
  after the end of the window. The candidate events are drawn from the alerts sent whose
  type qualifies, the flares of class M or X, the storms with a Kp index of at least 5
  and the Earth-directed CMEs, each with its timestamp in the window. Matched events are
  identified by their type and timestamp.
\<close>

definition eventKey :: "MatchedEvent \<Rightarrow> string \<times> string" where
  "eventKey e = (ev_type e, ev_timestamp e)"

definition spec_inWindow :: "jslib \<Rightarrow> Prediction \<Rightarrow> string \<Rightarrow> bool" where
  "spec_inWindow js p ts =
    (case getTime js ts of
       None \<Rightarrow> False
     | Some t \<Rightarrow>
         (case getTime js (p_timestamp p) of
            None \<Rightarrow> False
          | Some s \<Rightarrow>
              (case getTime js (p_windowEnd p) of
                 None \<Rightarrow> False
               | Some e \<Rightarrow> s \<le> t \<and> t \<le> e)))"

definition spec_qualifyingTypes :: "string list" where
  "spec_qualifyingTypes =
    [''flare-m'', ''flare-x'', ''kp-threshold'', ''kp-elevated'', ''cme-earth'',
     ''bz-threshold'', ''wind-speed'']"

definition spec_eventType :: "string \<Rightarrow> string" where
  "spec_eventType ty =
    (if ty = ''flare-m'' \<or> ty = ''flare-x'' then ''flare''
     else if ty = ''kp-threshold'' \<or> ty = ''kp-elevated'' then ''kp''
     else if ty = ''cme-earth'' then ''cme''
     else if ty = ''bz-threshold'' then ''bz''
     else ''wind'')"

definition spec_candidates ::
  "jslib \<Rightarrow> Prediction \<Rightarrow> CheckerState \<Rightarrow> SpaceWeatherSnapshot \<Rightarrow> MatchedEvent list" where
  "spec_candidates js p K S =
    map (\<lambda>a. \<lparr>ev_type = spec_eventType (a_type a), ev_description = a_title a,
              ev_timestamp = a_timestamp a\<rparr>)
      (filter (\<lambda>a. a_type a \<in> set spec_qualifyingTypes \<and> spec_inWindow js p (a_timestamp a))
         (alertsSent K)) @
    map (\<lambda>f. \<lparr>ev_type = ''flare'', ev_description = fl_classType f @ '' Flare'',
              ev_timestamp = fl_beginTime f\<rparr>)
      (filter (\<lambda>f. (take 1 (fl_classType f) = ''M'' \<or> take 1 (fl_classType f) = ''X'') \<and>
                    spec_inWindow js p (fl_beginTime f))
         (recentFlares S)) @
    map (\<lambda>s. \<lparr>ev_type = ''kp'',
              ev_description = ''Kp '' @ numStr js (st_kpIndex s) @ '' ('' @ st_gScale s @ '')'',
              ev_timestamp = st_startTime s\<rparr>)
      (filter (\<lambda>s. st_kpIndex s \<ge> 5 \<and> spec_inWindow js p (st_startTime s)) (recentStorms S)) @
    map (\<lambda>c. \<lparr>ev_type = ''cme'',
              ev_description = ''Earth-directed CME'' @
                (case cme_speed c of None \<Rightarrow> []
                 | Some v \<Rightarrow> if v = 0 then [] else '' ('' @ numStr js v @ '' km/s)''),
              ev_timestamp = cme_startTime c\<rparr>)
      (filter (\<lambda>c. spec_inWindow js p (cme_startTime c)) (earthDirectedCMEs S))"

text \<open>Every timestamp that the verification of the prediction \<open>p\<close> reads is well formed.\<close>

definition timesParse :: "jslib \<Rightarrow> Prediction \<Rightarrow> CheckerState \<Rightarrow> SpaceWeatherSnapshot \<Rightarrow> bool" where
  "timesParse js p K S =
    (getTime js (p_timestamp p) \<noteq> None \<and> getTime js (p_windowEnd p) \<noteq> None \<and>
     list_all (\<lambda>a. getTime js (a_timestamp a) \<noteq> None) (alertsSent K) \<and>
     list_all (\<lambda>f. getTime js (fl_beginTime f) \<noteq> None) (recentFlares S) \<and>
     list_all (\<lambda>s. getTime js (st_startTime s) \<noteq> None) (recentStorms S) \<and>
     list_all (\<lambda>c. getTime js (cme_startTime c) \<noteq> None) (earthDirectedCMEs S))"

text \<open>
  What the verification pass at the time \<open>now\<close> makes of a prediction \<open>p\<close>: a pending
  prediction whose window has ended becomes a hit when there is a candidate event and a
  miss otherwise, is stamped with \<open>now\<close> (which is not before the end of its window), and
  gets as matched events candidates only, one for every type and timestamp among the
  candidates and no two with the same; any other prediction stays as it is.
\<close>

definition spec_windowClosed :: "jslib \<Rightarrow> int \<Rightarrow> Prediction \<Rightarrow> bool" where
  "spec_windowClosed js now p =
    (case getTime js (p_windowEnd p) of None \<Rightarrow> False | Some w \<Rightarrow> w \<le> now)"

definition spec_notBefore :: "jslib \<Rightarrow> string \<Rightarrow> string \<Rightarrow> bool" where
  "spec_notBefore js later earlier =
    (case getTime js later of
       None \<Rightarrow> False
     | Some x \<Rightarrow> (case getTime js earlier of None \<Rightarrow> False | Some y \<Rightarrow> y \<le> x))"

definition spec_verified ::
  "jslib \<Rightarrow> int \<Rightarrow> CheckerState \<Rightarrow> SpaceWeatherSnapshot \<Rightarrow> Prediction \<Rightarrow> Prediction \<Rightarrow> bool" where
  "spec_verified js now K S p p' =
    (if p_status p = Pending \<and> spec_windowClosed js now p then
       p' = p\<lparr>p_matchedEvents := p_matchedEvents p',
              p_status := (if spec_candidates js p K S = [] then Miss else Hit),
              p_verifiedAt := Some (toISOString js now)\<rparr> \<and>
       set (p_matchedEvents p') \<subseteq> set (spec_candidates js p K S) \<and>
       eventKey ` set (p_matchedEvents p') = eventKey ` set (spec_candidates js p K S) \<and>
       distinct (map eventKey (p_matchedEvents p')) \<and>
       (p_matchedEvents p' \<noteq> []) = (p_status p' = Hit) \<and>
       spec_notBefore js (toISOString js now) (p_windowEnd p)
     else p' = p)"

section \<open>Concrete inputs\<close>

text \<open>
  An excerpt of the JavaScript library, enough to run the functions on the inputs below:
  the instants of a few ISO strings, and text formatting reduced to placeholders.
\<close>

definition demoTimes :: "(string \<times> int) list" where
  "demoTimes =
    [(''2024-05-08T12:00:00.000Z'', 1715169600000),
     (''2024-05-09T06:00:00.000Z'', 1715234400000),
     (''2024-05-10T11:30:00.000Z'', 1715340600000),
     (''2024-05-10T12:00:00.000Z'', 1715342400000),
     (''2024-05-10T12:15:00.000Z'', 1715343300000),
     (''2024-05-10T12:30:00.000Z'', 1715344200000),
     (''2024-05-10T17:30:00.000Z'', 1715362200000),
     (''2024-05-10T18:00:00.000Z'', 1715364000000),
     (''2024-05-12T12:00:00.000Z'', 1715515200000)]"

definition demoLib :: jslib where
  "demoLib =
    \<lparr>getTime = map_of demoTimes,
     toISOString = (\<lambda>t. case map_of (map (\<lambda>(s, ms). (ms, s)) demoTimes) t of
                          None \<Rightarrow> ''(other instant)'' | Some s \<Rightarrow> s),
     numStr = (\<lambda>x. ''#''),
     toFixed1 = (\<lambda>x. ''#.#''),
     formatTime = (\<lambda>s. s),
     toLocaleTimeString = (\<lambda>t. ''(time)''),
     toLocaleDateString = (\<lambda>s. s),
     trim = (\<lambda>s. s),
     slice0 = take\<rparr>"

definition quietSnapshot :: SpaceWeatherSnapshot where
  "quietSnapshot =
    \<lparr>kp = 2,
     solarWind = Some \<lparr>sw_timestamp = ''2024-05-10T12:00:00.000Z'', sw_speed = 350,
                       sw_density = 5, sw_temperature = 100000\<rparr>,
     magneticField = Some \<lparr>mf_timestamp = ''2024-05-10T12:00:00.000Z'', mf_bx = 1, mf_by = 1,
                           mf_bz = - 1, mf_bt = 2\<rparr>,
     earthDirectedCMEs = [], recentFlares = [], recentStorms = [], recentHSS = [],
     activeAlerts = []\<rparr>"

definition demoFlare :: "string \<Rightarrow> string \<Rightarrow> string \<Rightarrow> SolarFlare" where
  "demoFlare ident begin cls =
    \<lparr>fl_id = ident, fl_beginTime = begin, fl_peakTime = None, fl_endTime = None,
     fl_classType = cls, fl_sourceLocation = None, fl_activeRegionNum = None\<rparr>"

definition demoCME :: "string \<Rightarrow> real option \<Rightarrow> CME" where
  "demoCME ident predicted =
    \<lparr>cme_id = ident, cme_activityID = ident, cme_startTime = ''2024-05-09T06:00:00.000Z'',
     cme_sourceLocation = None, cme_activeRegionNum = None, cme_speed = Some 900,
     cme_halfAngle = Some 45, cme_isEarthDirected = True,
     cme_predictedArrival = Some ''2024-05-10T18:00:00.000Z'', cme_predictedKp = predicted,
     cme_note = None\<rparr>"

definition demoAlert :: "string \<Rightarrow> AlertUrgency \<Rightarrow> SpaceWeatherAlert" where
  "demoAlert ty u =
    \<lparr>a_id = ty @ ''-demo'', a_type = ty, a_urgency = u, a_title = ''Demo'', a_body = ''Demo.'',
     a_timestamp = ''2024-05-10T12:00:00.000Z'', a_sourceEventId = None\<rparr>"

definition demoClock :: "string \<Rightarrow> int \<Rightarrow> int \<Rightarrow> TickClock" where
  "demoClock stamp ms hour =
    \<lparr>c_runAt = stamp, c_evalAt = stamp, c_evalMs = ms, c_filterMs = ms, c_hour = hour,
     c_dispatchMs = ms, c_recordMs = ms\<rparr>"

definition emptyFS :: FS where
  "emptyFS = \<lparr>stateFile = None, lockFile = None\<rparr>"

definition noon :: TickClock where
  "noon = demoClock ''2024-05-10T12:00:00.000Z'' 1715342400000 12"

definition evening :: TickClock where
  "evening = demoClock ''2024-05-10T18:00:00.000Z'' 1715364000000 18"

definition recoveringState :: CheckerState where
  "recoveringState = DEFAULT_STATE\<lparr>lastKp := 6, lastWindSpeed := 750, kpWasAbove5 := True,
     windWasAbove700 := True\<rparr>"

definition kpRisingState :: CheckerState where
  "kpRisingState = DEFAULT_STATE\<lparr>lastKp := 4\<rparr>"

definition stormSnapshot :: "real \<Rightarrow> SpaceWeatherSnapshot" where
  "stormSnapshot k = quietSnapshot\<lparr>kp := k\<rparr>"

definition allSent :: "Channel \<times> SpaceWeatherAlert \<Rightarrow> bool" where
  "allSent call = True"

definition noneSent :: "Channel \<times> SpaceWeatherAlert \<Rightarrow> bool" where
  "noneSent call = False"

text \<open>Kp rises from 4 to 5.3 at noon; the same at two in the night, with every sender failing.\<close>

definition firstTick :: TickResult where
  "firstTick = runTick demoLib noon quietHours allSent True (stormSnapshot 5.3) [] [] kpRisingState emptyFS"

definition nightTick :: TickResult where
  "nightTick = runTick demoLib (demoClock ''2024-05-10T12:00:00.000Z'' 1715342400000 2)
     quietHours noneSent True (stormSnapshot 5.3) [] [] kpRisingState emptyFS"

text \<open>A first run that finds 101 X-class flares in the feed.\<close>

definition flareFlood :: "SolarFlare list" where
  "flareFlood =
    demoFlare ''FLR-0'' ''2024-05-10T11:30:00.000Z'' ''X9.9'' #
    map (\<lambda>i. demoFlare (''FLR-'' @ showNat i) ''2024-05-10T11:30:00.000Z'' ''X1.0'') [1..<101]"

definition floodTick :: TickResult where
  "floodTick = runTick demoLib noon quietHours allSent True
     (quietSnapshot\<lparr>recentFlares := flareFlood\<rparr>) [] [] DEFAULT_STATE emptyFS"

definition xAlert :: "string \<Rightarrow> string \<Rightarrow> SpaceWeatherAlert" where
  "xAlert ident cls =
    \<lparr>a_id = ''flare-'' @ ident, a_type = ''flare-x'', a_urgency = Critical,
     a_title = cls @ '' Solar Flare'',
     a_body = cls @ '' flare detected at 2024-05-10T11:30:00.000Z. '' @ impactFlare ''X'',
     a_timestamp = ''2024-05-10T12:00:00.000Z'', a_sourceEventId = Some ident\<rparr>"

definition lockedFS :: FS where
  "lockedFS =
    \<lparr>stateFile = None,
     lockFile = Some (Text (lockJson 4242 ''2024-05-10T12:00:00.000Z'' ''observatory''))\<rparr>"

text \<open>
  A prediction submitted 48 hours before its window ended at noon, with an M2.1 flare in
  between; an empty prediction list; and a list whose last prediction is half an hour
  old at noon.
\<close>

definition demoPrediction :: Prediction where
  "demoPrediction =
    \<lparr>p_id = ''prediction-1'', p_timestamp = ''2024-05-08T12:00:00.000Z'', p_note = None,
     p_status = Pending, p_verifiedAt = None, p_windowHours = 48,
     p_windowEnd = ''2024-05-10T12:00:00.000Z'', p_matchedEvents = []\<rparr>"

definition demoPredictions :: PredictionState where
  "demoPredictions = \<lparr>ps_schemaVersion = 1, predictions = [demoPrediction], config = DEFAULT_CONFIG\<rparr>"

definition flareSnapshot :: SpaceWeatherSnapshot where
  "flareSnapshot =
    quietSnapshot\<lparr>recentFlares := [demoFlare ''FLR-7'' ''2024-05-09T06:00:00.000Z'' ''M2.1'']\<rparr>"

definition noPredictions :: PredictionState where
  "noPredictions = \<lparr>ps_schemaVersion = 1, predictions = [], config = DEFAULT_CONFIG\<rparr>"

definition recentPrediction :: Prediction where
  "recentPrediction =
    \<lparr>p_id = ''prediction-2'', p_timestamp = ''2024-05-10T11:30:00.000Z'', p_note = None,
     p_status = Pending, p_verifiedAt = None, p_windowHours = 48,
     p_windowEnd = ''2024-05-12T11:30:00.000Z'', p_matchedEvents = []\<rparr>"

definition freshPredictions :: PredictionState where
  "freshPredictions =
    \<lparr>ps_schemaVersion = 1, predictions = [recentPrediction], config = DEFAULT_CONFIG\<rparr>"

section \<open>Auxiliary definitions for the proofs about the verifier\<close>

text \<open>
  The key string of an event, the guarded pushes of a list of keyed events, and the
  keyed events that each loop body of \<open>findMatchingEvents\<close> pushes for one item.
\<close>

definition keyStr :: "MatchedEvent \<Rightarrow> string" where
  "keyStr e = ev_type e @ ''-'' @ ev_timestamp e"

definition pushAll ::
  "(string \<times> MatchedEvent) list \<Rightarrow> MatchedEvent list \<times> string set \<Rightarrow> MatchedEvent list \<times> string set" where
  "pushAll items acc = fold (\<lambda>item. pushEvent (fst item) (snd item)) items acc"

definition alertItems :: "jslib \<Rightarrow> int option \<Rightarrow> int option \<Rightarrow> SpaceWeatherAlert \<Rightarrow> (string \<times> MatchedEvent) list" where
  "alertItems js start endMs alert =
    (if outsideWindow (getTime js (a_timestamp alert)) start endMs then []
     else (case alertEvent alert of None \<Rightarrow> [] | Some event \<Rightarrow> [(keyStr event, event)]))"

definition flareItems :: "jslib \<Rightarrow> int option \<Rightarrow> int option \<Rightarrow> SolarFlare \<Rightarrow> (string \<times> MatchedEvent) list" where
  "flareItems js start endMs flare =
    (if outsideWindow (getTime js (fl_beginTime flare)) start endMs then []
     else if startsWith (fl_classType flare) ''M'' \<or> startsWith (fl_classType flare) ''X'' then
       [(''flare-'' @ fl_beginTime flare,
         \<lparr>ev_type = ''flare'', ev_description = fl_classType flare @ '' Flare'',
          ev_timestamp = fl_beginTime flare\<rparr>)]
     else [])"

definition stormItems :: "jslib \<Rightarrow> int option \<Rightarrow> int option \<Rightarrow> GeomagneticStorm \<Rightarrow> (string \<times> MatchedEvent) list" where
  "stormItems js start endMs storm =
    (if outsideWindow (getTime js (st_startTime storm)) start endMs then []
     else if st_kpIndex storm \<ge> 5 then
       [(''kp-'' @ st_startTime storm,
         \<lparr>ev_type = ''kp'',
          ev_description = ''Kp '' @ numStr js (st_kpIndex storm) @ '' ('' @ st_gScale storm @ '')'',
          ev_timestamp = st_startTime storm\<rparr>)]
     else [])"

definition cmeItems :: "jslib \<Rightarrow> int option \<Rightarrow> int option \<Rightarrow> CME \<Rightarrow> (string \<times> MatchedEvent) list" where
  "cmeItems js start endMs cme =
    (if outsideWindow (getTime js (cme_startTime cme)) start endMs then []
     else
       [(''cme-'' @ cme_startTime cme,
         \<lparr>ev_type = ''cme'',
          ev_description = ''Earth-directed CME'' @
            (case cme_speed cme of None \<Rightarrow> []
             | Some v \<Rightarrow> if v = 0 then [] else '' ('' @ numStr js v @ '' km/s)''),
          ev_timestamp = cme_startTime cme\<rparr>)])"

definition allItems ::
  "jslib \<Rightarrow> Prediction \<Rightarrow> CheckerState \<Rightarrow> SpaceWeatherSnapshot \<Rightarrow> (string \<times> MatchedEvent) list" where
  "allItems js p K S =
    concat (map (alertItems js (getTime js (p_timestamp p)) (getTime js (p_windowEnd p))) (alertsSent K)) @
    concat (map (flareItems js (getTime js (p_timestamp p)) (getTime js (p_windowEnd p))) (recentFlares S)) @
    concat (map (stormItems js (getTime js (p_timestamp p)) (getTime js (p_windowEnd p))) (recentStorms S)) @
    concat (map (cmeItems js (getTime js (p_timestamp p)) (getTime js (p_windowEnd p))) (earthDirectedCMEs S))"

definition accOK :: "MatchedEvent list \<times> string set \<Rightarrow> bool" where
  "accOK acc = (snd acc = keyStr ` set (fst acc) \<and> distinct (map keyStr (fst acc)))"

definition eventTypes :: "string list" where
  "eventTypes = [''flare'', ''kp'', ''cme'', ''bz'', ''wind'']"

section \<open>The evaluator: which rule emits which type\<close>

lemma cmeAlerts_type1:
  "a \<in> set (cmeAlerts js now nowMs K c) \<Longrightarrow> a_type a \<in> set [''cme-earth'', ''cme-revision'']"
  by (auto simp: cmeAlerts_def Let_def split: option.splits if_splits)

lemma cmeAlerts_types:
  "a \<in> set (concat (map (cmeAlerts js now nowMs K) cs)) \<Longrightarrow>
   a_type a \<in> set [''cme-earth'', ''cme-revision'']"
  using cmeAlerts_type1 by fastforce

lemma flareAlerts_type1:
  "a \<in> set (flareAlerts js now K f) \<Longrightarrow> a_type a \<in> set [''flare-x'', ''flare-m'']"
  by (auto simp: flareAlerts_def Let_def split: option.splits if_splits)

lemma flareAlerts_types:
  "a \<in> set (concat (map (flareAlerts js now K) fs)) \<Longrightarrow> a_type a \<in> set [''flare-x'', ''flare-m'']"
  using flareAlerts_type1 by fastforce

lemma hssAlerts_type1:
  "a \<in> set (hssAlerts js now K h) \<Longrightarrow> a_type a \<in> set [''hss-arrival'']"
  by (auto simp: hssAlerts_def split: if_splits)

lemma hssAlerts_types:
  "a \<in> set (concat (map (hssAlerts js now K) hs)) \<Longrightarrow> a_type a \<in> set [''hss-arrival'']"
  using hssAlerts_type1 by fastforce

lemma kpAlerts_types:
  "a \<in> set (kpAlerts js now k p) \<Longrightarrow> a_type a \<in> set [''kp-threshold'', ''kp-elevated'']"
  by (auto simp: kpAlerts_def Let_def split: if_splits)

lemma bzAlerts_types:
  "a \<in> set (bzAlerts js now b p) \<Longrightarrow> a_type a \<in> set [''bz-threshold'']"
  by (auto simp: bzAlerts_def split: if_splits)

lemma windAlerts_types:
  "a \<in> set (windAlerts js now w p) \<Longrightarrow> a_type a \<in> set [''wind-speed'']"
  by (auto simp: windAlerts_def split: if_splits)

lemma densityAlerts_types:
  "a \<in> set (densityAlerts js now d p) \<Longrightarrow> a_type a \<in> set [''wind-density'']"
  by (auto simp: densityAlerts_def split: if_splits)

lemma regionAlerts_type1:
  "a \<in> set (regionAlerts js now K r) \<Longrightarrow> a_type a \<in> set [''active-region'']"
  by (auto simp: regionAlerts_def Let_def split: if_splits)

lemma regionAlerts_types:
  "a \<in> set (concat (map (regionAlerts js now K) rs)) \<Longrightarrow> a_type a \<in> set [''active-region'']"
  using regionAlerts_type1 by fastforce

lemma allClearAlerts_types:
  "a \<in> set (allClearAlerts js now K k b w) \<Longrightarrow> a_type a \<in> set [''all-clear'']"
  by (auto simp: allClearAlerts_def split: if_splits)

lemma ofTypes_foreign:
  assumes "\<And>a. a \<in> set xs \<Longrightarrow> a_type a \<in> set own" and "set own \<inter> set ts = {}"
  shows "ofTypes ts xs = []"
  using assms unfolding ofTypes_def filter_empty_conv by blast

lemma ofTypes_own:
  assumes "\<And>a. a \<in> set xs \<Longrightarrow> a_type a \<in> set own" and "set own \<subseteq> set ts"
  shows "ofTypes ts xs = xs"
  using assms unfolding ofTypes_def filter_id_conv by blast

lemma ofTypes_append: "ofTypes ts (xs @ ys) = ofTypes ts xs @ ofTypes ts ys"
  by (simp add: ofTypes_def)

lemma ofTypes_Nil: "ofTypes ts [] = []"
  by (simp add: ofTypes_def)

lemma evaluateAlerts_kp:
  "ofTypes [''kp-threshold'', ''kp-elevated''] (evaluateAlerts js now nowMs S R K) =
   kpAlerts js now (kp S) (lastKp K)"
proof -
  let ?ts = "[''kp-threshold'', ''kp-elevated'']"
  have s1: "ofTypes ?ts (concat (map (cmeAlerts js now nowMs K) xs)) = []" for xs
    by (rule ofTypes_foreign [OF cmeAlerts_types]) simp_all
  have s2: "ofTypes ?ts (concat (map (flareAlerts js now K) xs)) = []" for xs
    by (rule ofTypes_foreign [OF flareAlerts_types]) simp_all
  have s3: "ofTypes ?ts (concat (map (hssAlerts js now K) xs)) = []" for xs
    by (rule ofTypes_foreign [OF hssAlerts_types]) simp_all
  have s4: "ofTypes ?ts (kpAlerts js now k p) = kpAlerts js now k p" for k p
    by (rule ofTypes_own [OF kpAlerts_types]) simp_all
  have s5: "ofTypes ?ts (bzAlerts js now k p) = []" for k p
    by (rule ofTypes_foreign [OF bzAlerts_types]) simp_all
  have s6: "ofTypes ?ts (windAlerts js now k p) = []" for k p
    by (rule ofTypes_foreign [OF windAlerts_types]) simp_all
  have s7: "ofTypes ?ts (densityAlerts js now k p) = []" for k p
    by (rule ofTypes_foreign [OF densityAlerts_types]) simp_all
  have s8: "ofTypes ?ts (concat (map (regionAlerts js now K) xs)) = []" for xs
    by (rule ofTypes_foreign [OF regionAlerts_types]) simp_all
  have s9: "ofTypes ?ts (allClearAlerts js now K k b w) = []" for k b w
    by (rule ofTypes_foreign [OF allClearAlerts_types]) simp_all
  show ?thesis
    unfolding evaluateAlerts_def Let_def ofTypes_append s1 s2 s3 s4 s5 s6 s7 s9
    by (simp add: s8 ofTypes_Nil)
qed

lemma evaluateAlerts_cme:
  "ofTypes [''cme-earth'', ''cme-revision''] (evaluateAlerts js now nowMs S R K) =
   concat (map (cmeAlerts js now nowMs K) (earthDirectedCMEs S))"
proof -
  let ?ts = "[''cme-earth'', ''cme-revision'']"
  have s1: "ofTypes ?ts (concat (map (cmeAlerts js now nowMs K) xs)) = concat (map (cmeAlerts js now nowMs K) xs)" for xs
    by (rule ofTypes_own [OF cmeAlerts_types]) simp_all
  have s2: "ofTypes ?ts (concat (map (flareAlerts js now K) xs)) = []" for xs
    by (rule ofTypes_foreign [OF flareAlerts_types]) simp_all
  have s3: "ofTypes ?ts (concat (map (hssAlerts js now K) xs)) = []" for xs
    by (rule ofTypes_foreign [OF hssAlerts_types]) simp_all
  have s4: "ofTypes ?ts (kpAlerts js now k p) = []" for k p
    by (rule ofTypes_foreign [OF kpAlerts_types]) simp_all
  have s5: "ofTypes ?ts (bzAlerts js now k p) = []" for k p
    by (rule ofTypes_foreign [OF bzAlerts_types]) simp_all
  have s6: "ofTypes ?ts (windAlerts js now k p) = []" for k p
    by (rule ofTypes_foreign [OF windAlerts_types]) simp_all
  have s7: "ofTypes ?ts (densityAlerts js now k p) = []" for k p
    by (rule ofTypes_foreign [OF densityAlerts_types]) simp_all
  have s8: "ofTypes ?ts (concat (map (regionAlerts js now K) xs)) = []" for xs
    by (rule ofTypes_foreign [OF regionAlerts_types]) simp_all
  have s9: "ofTypes ?ts (allClearAlerts js now K k b w) = []" for k b w
    by (rule ofTypes_foreign [OF allClearAlerts_types]) simp_all
  show ?thesis
    unfolding evaluateAlerts_def Let_def ofTypes_append s1 s2 s3 s4 s5 s6 s7 s9
    by (simp add: s8 ofTypes_Nil)
qed

lemma evaluateAlerts_flare:
  "ofTypes [''flare-x'', ''flare-m''] (evaluateAlerts js now nowMs S R K) =
   concat (map (flareAlerts js now K) (recentFlares S))"
proof -
  let ?ts = "[''flare-x'', ''flare-m'']"
  have s1: "ofTypes ?ts (concat (map (cmeAlerts js now nowMs K) xs)) = []" for xs
    by (rule ofTypes_foreign [OF cmeAlerts_types]) simp_all
  have s2: "ofTypes ?ts (concat (map (flareAlerts js now K) xs)) = concat (map (flareAlerts js now K) xs)" for xs
    by (rule ofTypes_own [OF flareAlerts_types]) simp_all
  have s3: "ofTypes ?ts (concat (map (hssAlerts js now K) xs)) = []" for xs
    by (rule ofTypes_foreign [OF hssAlerts_types]) simp_all
  have s4: "ofTypes ?ts (kpAlerts js now k p) = []" for k p
    by (rule ofTypes_foreign [OF kpAlerts_types]) simp_all
  have s5: "ofTypes ?ts (bzAlerts js now k p) = []" for k p
    by (rule ofTypes_foreign [OF bzAlerts_types]) simp_all
  have s6: "ofTypes ?ts (windAlerts js now k p) = []" for k p
    by (rule ofTypes_foreign [OF windAlerts_types]) simp_all
  have s7: "ofTypes ?ts (densityAlerts js now k p) = []" for k p
    by (rule ofTypes_foreign [OF densityAlerts_types]) simp_all
  have s8: "ofTypes ?ts (concat (map (regionAlerts js now K) xs)) = []" for xs
    by (rule ofTypes_foreign [OF regionAlerts_types]) simp_all
  have s9: "ofTypes ?ts (allClearAlerts js now K k b w) = []" for k b w
    by (rule ofTypes_foreign [OF allClearAlerts_types]) simp_all
  show ?thesis
    unfolding evaluateAlerts_def Let_def ofTypes_append s1 s2 s3 s4 s5 s6 s7 s9
    by (simp add: s8 ofTypes_Nil)
qed

lemma find_as_filter:
  "find P xs = (case filter P xs of [] \<Rightarrow> None | x # _ \<Rightarrow> Some x)"
  by (induction xs) auto

lemma cmeAlerts_kind: "map alertKind (cmeAlerts js now nowMs K c) = spec_cmeRule K c"
  by (simp add: cmeAlerts_def spec_cmeRule_def find_as_filter alertKind_def Let_def orElse_def
      cmeRevision_kpJump_def split: list.splits option.splits)

lemma flareAlerts_kind:
  "map alertKind (flareAlerts js now K f) = flareRuleWith (\<lambda>letter. letter) K f"
  by (simp add: flareAlerts_def flareRuleWith_def alertKind_def Let_def charAt0_def)

lemma map_concat_kind:
  "(\<And>x. map g (f x) = h x) \<Longrightarrow> map g (concat (map f xs)) = concat (map h xs)"
  by (induction xs) auto

section \<open>Kp threshold crossings\<close>

text \<open>
  Claim C5. On one tick the evaluator emits at most one Kp alert, the one of the highest
  branch that matches: the alerts of the types kp-threshold and kp-elevated in the output
  are a critical kp-threshold when Kp is at least 7 and was below 7; else a high
  kp-threshold when Kp is at least 5 and was below 5; else an info kp-elevated when Kp is
  at least 4 and was below 4; else none.
\<close>

theorem kp_single_highest_branch:
  "map alertKind (ofTypes [''kp-threshold'', ''kp-elevated''] (evaluateAlerts js now nowMs S R K)) =
    (if kp S \<ge> 7 \<and> lastKp K < 7 then [(''kp-threshold'', Critical, None)]
     else if kp S \<ge> 5 \<and> lastKp K < 5 then [(''kp-threshold'', High, None)]
     else if kp S \<ge> 4 \<and> lastKp K < 4 then [(''kp-elevated'', Info, None)]
     else [])"
  unfolding evaluateAlerts_kp by (simp add: kpAlerts_def alertKind_def Let_def)

text \<open>Scenarios 1 to 3 of the specification, as far as the evaluator goes.\<close>

lemma kp_scenarios:
  "evaluateAlerts demoLib ''2024-05-10T12:00:00.000Z'' 1715342400000 quietSnapshot [] DEFAULT_STATE = []"
  "map alertKind (evaluateAlerts demoLib ''2024-05-10T12:00:00.000Z'' 1715342400000
     (quietSnapshot\<lparr>kp := 5.3\<rparr>) [] (DEFAULT_STATE\<lparr>lastKp := 4\<rparr>)) =
     [(''kp-threshold'', High, None)]"
  "map alertKind (evaluateAlerts demoLib ''2024-05-10T12:00:00.000Z'' 1715342400000
     (quietSnapshot\<lparr>kp := 7.3\<rparr>) [] (DEFAULT_STATE\<lparr>lastKp := 3.7\<rparr>)) =
     [(''kp-threshold'', Critical, None)]"
  by (simp_all add: evaluateAlerts_def kpAlerts_def bzAlerts_def windAlerts_def densityAlerts_def
      allClearAlerts_def quietSnapshot_def DEFAULT_STATE_def alertKind_def Let_def)

section \<open>Earth-directed CMEs\<close>

text \<open>
  Claim C2. The alerts of the types cme-earth and cme-revision in the output of the
  evaluator are, CME by CME in the order of the snapshot, those of rule 1: for a CME
  whose id is not known exactly one cme-earth alert, critical when its predicted Kp
  (missing: 0) is at least 7 and high otherwise; for a known CME one cme-revision alert
  when the predicted Kp rose by at least 2 to at least 5 (critical from 7 on, else high),
  and no alert otherwise.
\<close>

theorem cme_alerts_follow_rule:
  "map alertKind (ofTypes [''cme-earth'', ''cme-revision''] (evaluateAlerts js now nowMs S R K)) =
   concat (map (spec_cmeRule K) (earthDirectedCMEs S))"
  unfolding evaluateAlerts_cme by (rule map_concat_kind) (rule cmeAlerts_kind)

text \<open>
  Scenarios 4 and 5 of the specification: a new CME with a predicted Kp of 8, then the
  same CME revised down to 6 (no alert) or up to 10 (a critical revision).
\<close>

lemma cme_scenarios:
  "map alertKind (evaluateAlerts demoLib ''2024-05-10T12:00:00.000Z'' 1715342400000
     (quietSnapshot\<lparr>earthDirectedCMEs := [demoCME ''X1'' (Some 8)]\<rparr>) [] DEFAULT_STATE) =
     [(''cme-earth'', Critical, Some ''X1'')]"
  "map alertKind (evaluateAlerts demoLib ''2024-05-10T12:00:00.000Z'' 1715342400000
     (quietSnapshot\<lparr>earthDirectedCMEs := [demoCME ''X1'' (Some 6)]\<rparr>) []
     (DEFAULT_STATE\<lparr>knownCMEs := [\<lparr>k_id = ''X1'', k_predictedKp = Some 8,
        k_predictedArrival = Some ''2024-05-10T18:00:00.000Z''\<rparr>]\<rparr>)) = []"
  "map alertKind (evaluateAlerts demoLib ''2024-05-10T12:00:00.000Z'' 1715342400000
     (quietSnapshot\<lparr>earthDirectedCMEs := [demoCME ''X1'' (Some 10)]\<rparr>) []
     (DEFAULT_STATE\<lparr>knownCMEs := [\<lparr>k_id = ''X1'', k_predictedKp = Some 8,
        k_predictedArrival = Some ''2024-05-10T18:00:00.000Z''\<rparr>]\<rparr>)) =
     [(''cme-revision'', Critical, Some ''X1'')]"
  by (simp_all add: evaluateAlerts_def cmeAlerts_def kpAlerts_def bzAlerts_def windAlerts_def
      densityAlerts_def allClearAlerts_def quietSnapshot_def DEFAULT_STATE_def demoCME_def
      alertKind_def orElse_def cmeRevision_kpJump_def Let_def)

section \<open>Solar flares\<close>

lemma upper_m: "toUpperCase ''m'' = ''M''"
  unfolding toUpperCase_def by code_simp

text \<open>
  Claim C3, as the specification states it, fails: the evaluator compares the first
  character of the class as it stands and never converts it to upper case. A new flare
  of class m1.0 gets no alert, where the rule on the upper-case letter asks for a flare-m
  alert.
\<close>

theorem flare_uppercase_counterexample:
  "map alertKind (ofTypes [''flare-x'', ''flare-m'']
     (evaluateAlerts demoLib ''2024-05-10T12:00:00.000Z'' 1715342400000
        (quietSnapshot\<lparr>recentFlares := [demoFlare ''FLR-1'' ''2024-05-10T11:30:00.000Z'' ''m1.0'']\<rparr>)
        [] DEFAULT_STATE)) = [] \<and>
   concat (map (spec_flareRule DEFAULT_STATE)
     [demoFlare ''FLR-1'' ''2024-05-10T11:30:00.000Z'' ''m1.0'']) =
     [(''flare-m'', High, Some ''FLR-1'')]"
  by (simp add: evaluateAlerts_flare flareAlerts_def demoFlare_def DEFAULT_STATE_def charAt0_def
      spec_flareRule_def flareRuleWith_def upper_m)

text \<open>
  Claim C3, amended. The alerts of the types flare-x and flare-m in the output are, flare
  by flare, those of rule 2 on the first character of the class taken as it is: no alert
  for a flare whose id is known, a critical flare-x alert for the letter X, a high
  flare-m alert for the letter M, and no alert for any other class (C and below, and the
  lower-case letters).
\<close>

theorem flare_alerts_case_sensitive:
  "map alertKind (ofTypes [''flare-x'', ''flare-m''] (evaluateAlerts js now nowMs S R K)) =
   concat (map (flareRuleWith (\<lambda>letter. letter) K) (recentFlares S))"
  unfolding evaluateAlerts_flare by (rule map_concat_kind) (rule flareAlerts_kind)

section \<open>Quiet hours\<close>

lemma channels_nonempty: "channels u \<noteq> []"
  by (cases u) simp_all

text \<open>
  Claim C6. \<open>dispatchAlert\<close> hands an alert to the channels of its urgency unless the
  alert is not critical, quiet hours are enabled and the local hour lies in the window
  (start included, end excluded, over midnight when the start is after the end); in that
  case it hands it to no channel. So a critical alert is always routed, and a
  non-critical alert is routed exactly when quiet hours are disabled or the hour is
  outside the window.
\<close>

theorem quiet_hours_routing:
  "dispatchAlert q hour a =
     (if a_urgency a \<noteq> Critical \<and> qh_enabled q \<and> spec_inQuietWindow q hour then []
      else map (\<lambda>channel. (channel, a)) (channels (a_urgency a))) \<and>
   (dispatchAlert q hour a = []) =
     (a_urgency a \<noteq> Critical \<and> qh_enabled q \<and> spec_inQuietWindow q hour)"
  by (auto simp: dispatchAlert_def isQuietHours_def spec_inQuietWindow_def channels_nonempty)

theorem quiet_hours_routing_witness:
  "dispatchAlert quietHours 2 (demoAlert ''bz-threshold'' High) = [] \<and>
   dispatchAlert quietHours 23 (demoAlert ''bz-threshold'' High) = [] \<and>
   dispatchAlert quietHours 7 (demoAlert ''bz-threshold'' High) =
     [(Signal, demoAlert ''bz-threshold'' High), (Desktop, demoAlert ''bz-threshold'' High)] \<and>
   dispatchAlert quietHours 2 (demoAlert ''flare-x'' Critical) =
     [(Signal, demoAlert ''flare-x'' Critical), (Desktop, demoAlert ''flare-x'' Critical)]"
  using quiet_hours_routing [of quietHours 2 "demoAlert ''bz-threshold'' High"]
    quiet_hours_routing [of quietHours 23 "demoAlert ''bz-threshold'' High"]
    quiet_hours_routing [of quietHours 7 "demoAlert ''bz-threshold'' High"]
    quiet_hours_routing [of quietHours 2 "demoAlert ''flare-x'' Critical"]
  by (simp add: quietHours_def spec_inQuietWindow_def demoAlert_def)

section \<open>Releasing the lock\<close>

text \<open>
  Claim C9. \<open>releaseLock\<close> removes the lock file only when the file exists, parses and
  records the pid of the calling process (and the file can be read and unlinked); in
  every other case it leaves the files as they are. In particular the lock of another
  process is never removed.
\<close>

theorem release_only_own_lock:
  "releaseLock readOk unlinkOk pid fs =
     (if spec_ownsLock pid fs \<and> readOk \<and> unlinkOk then fs\<lparr>lockFile := None\<rparr> else fs) \<and>
   (spec_ownsLock other fs \<and> other \<noteq> pid \<longrightarrow> releaseLock readOk unlinkOk pid fs = fs)"
  by (auto simp: releaseLock_def spec_ownsLock_def JSON_parse_def pidOf_def
      split: option.splits filetext.splits json.splits sum.splits)

theorem release_only_own_lock_witness:
  "spec_ownsLock 4242 lockedFS \<and> (4242::int) \<noteq> 77 \<and>
   releaseLock True True 77 lockedFS = lockedFS \<and>
   releaseLock True True 4242 lockedFS = emptyFS \<and>
   releaseLock True True 4242 (emptyFS\<lparr>lockFile := Some Garbage\<rparr>) =
     emptyFS\<lparr>lockFile := Some Garbage\<rparr>"
  using release_only_own_lock [of True True 77 lockedFS 4242]
    release_only_own_lock [of True True 4242 lockedFS 4242]
    release_only_own_lock [of True True 4242 "emptyFS\<lparr>lockFile := Some Garbage\<rparr>" 4242]
  by (simp add: spec_ownsLock_def lockJson_def lockedFS_def emptyFS_def)

section \<open>Saving and loading the state\<close>

lemma stateProps_keys: "map fst (stateProps K) = map fst (stateProps DEFAULT_STATE)"
  by (simp add: stateProps_def)

lemma map_add_covered:
  assumes "set (map fst ds) \<subseteq> set (map fst ps)"
  shows "map_of ds ++ map_of ps = map_of ps"
proof
  fix x
  show "(map_of ds ++ map_of ps) x = map_of ps x"
  proof (cases "map_of ps x")
    case None
    then have "x \<notin> set (map fst ps)" by (simp add: map_of_eq_None_iff)
    with assms have "x \<notin> set (map fst ds)" by blast
    then have "map_of ds x = None" by (simp add: map_of_eq_None_iff)
    with None show ?thesis by (simp add: map_add_def)
  next
    case (Some v)
    then show ?thesis by (simp add: map_add_def)
  qed
qed

lemma spread_over_defaults:
  "map_of (stateProps DEFAULT_STATE) ++ map_of (stateProps K) = map_of (stateProps K)"
  by (rule map_add_covered) (simp only: stateProps_keys [of K] subset_refl)

lemma loadState_after_write:
  "loadState True (fs\<lparr>stateFile := Some (JSON_stringify (stateJson K))\<rparr>) = map_of (stateProps K)"
  by (simp add: loadState_def JSON_parse_def JSON_stringify_def stateJson_def ownProps_def
      spread_over_defaults)

lemma urgencyName_inj: "urgencyName u = urgencyName v \<Longrightarrow> u = v"
  by (cases u; cases v) (simp_all add: urgencyName_def)

lemma alertJson_inj: "alertJson a = alertJson b \<Longrightarrow> a = b"
  by (cases a; cases b) (auto simp: alertJson_def split: option.splits dest: urgencyName_inj)

lemma jsonOpt_JNum_inj: "jsonOpt JNum x = jsonOpt JNum y \<Longrightarrow> x = y"
  by (cases x; cases y) (simp_all add: jsonOpt_def)

lemma jsonOpt_JStr_inj: "jsonOpt JStr x = jsonOpt JStr y \<Longrightarrow> x = y"
  by (cases x; cases y) (simp_all add: jsonOpt_def)

lemma knownCMEJson_inj: "knownCMEJson a = knownCMEJson b \<Longrightarrow> a = b"
  by (cases a; cases b) (auto simp: knownCMEJson_def dest: jsonOpt_JNum_inj jsonOpt_JStr_inj)

lemma dataHealthJson_inj: "dataHealthJson a = dataHealthJson b \<Longrightarrow> a = b"
  by (cases a; cases b) (auto simp: dataHealthJson_def split: option.splits)

lemma map_inj_eq:
  assumes "\<And>x y. f x = f y \<Longrightarrow> x = y" and "map f xs = map f ys"
  shows "xs = ys"
  using assms(2)
proof (induction xs arbitrary: ys)
  case Nil
  then show ?case by simp
next
  case (Cons x xs)
  then obtain y ys' where ys: "ys = y # ys'" "f x = f y" "map f xs = map f ys'"
    by (auto simp: Cons_eq_map_conv)
  with Cons.IH [of ys'] assms(1) [of x y] show ?case by simp
qed

lemma cooldownJson_inj:
  "map (\<lambda>(k, v). (k, JStr v)) xs = map (\<lambda>(k, v). (k, JStr v)) ys \<Longrightarrow> xs = ys"
  by (rule map_inj_eq [where f = "\<lambda>(k, v). (k, JStr v)"]) auto

lemma stateProps_inj:
  assumes "map_of (stateProps A) = map_of (stateProps B)"
  shows "A = B"
proof -
  have v: "map_of (stateProps A) k = map_of (stateProps B) k" for k
    using assms by simp
  have 1: "knownCMEs A = knownCMEs B"
    using v [of "''knownCMEs''"]
    by (auto simp: stateProps_def intro: map_inj_eq [of knownCMEJson] knownCMEJson_inj)
  have 2: "knownFlareIds A = knownFlareIds B"
    using v [of "''knownFlareIds''"] by (auto simp: stateProps_def intro: map_inj_eq [of JStr])
  have 3: "knownHSSIds A = knownHSSIds B"
    using v [of "''knownHSSIds''"] by (auto simp: stateProps_def intro: map_inj_eq [of JStr])
  have 4: "knownAlertProductIds A = knownAlertProductIds B"
    using v [of "''knownAlertProductIds''"]
    by (auto simp: stateProps_def intro: map_inj_eq [of JStr])
  have 5: "knownRegionNumbers A = knownRegionNumbers B"
    using v [of "''knownRegionNumbers''"]
    by (auto simp: stateProps_def intro: map_inj_eq [of JNum])
  have 6: "lastCooldowns A = lastCooldowns B"
    using v [of "''lastCooldowns''"] by (auto simp: stateProps_def intro: cooldownJson_inj)
  have 7: "dataHealth A = dataHealth B"
    using v [of "''dataHealth''"]
    by (auto simp: stateProps_def intro: map_inj_eq [of dataHealthJson] dataHealthJson_inj)
  have 8: "alertsSent A = alertsSent B"
    using v [of "''alertsSent''"]
    by (auto simp: stateProps_def intro: map_inj_eq [of alertJson] alertJson_inj)
  have 9: "schemaVersion A = schemaVersion B" "lastRunAt A = lastRunAt B" "lastKp A = lastKp B"
    "lastBz A = lastBz B" "lastWindSpeed A = lastWindSpeed B"
    "lastWindDensity A = lastWindDensity B"
    using v [of "''schemaVersion''"] v [of "''lastRunAt''"] v [of "''lastKp''"]
      v [of "''lastBz''"] v [of "''lastWindSpeed''"] v [of "''lastWindDensity''"]
    by (simp_all add: stateProps_def)
  have 10: "kpWasAbove5 A = kpWasAbove5 B"
    "kpWasAbove7 A = kpWasAbove7 B" "bzWasBelow10 A = bzWasBelow10 B"
    "bzWasBelow15 A = bzWasBelow15 B" "windWasAbove600 A = windWasAbove600 B"
    "windWasAbove700 A = windWasAbove700 B" "densityWasAbove20 A = densityWasAbove20 B"
    using v [of "''kpWasAbove5''"] v [of "''kpWasAbove7''"] v [of "''bzWasBelow10''"]
      v [of "''bzWasBelow15''"] v [of "''windWasAbove600''"] v [of "''windWasAbove700''"]
      v [of "''densityWasAbove20''"]
    by (simp_all add: stateProps_def)
  show ?thesis
    by (rule CheckerState.equality) (simp_all add: 1 2 3 4 5 6 7 8 9 10)
qed

text \<open>
  Claim C8. After a successful \<open>saveState\<close>, which caps the history to its last
  \<open>maxAlertHistory\<close> entries and writes the state, \<open>loadState\<close> returns an object with
  exactly the properties of the saved state: the parsed text, merged over the defaults,
  is the saved state, and it is the object of no other state.
\<close>

theorem save_load_roundtrip:
  assumes "saveState writeOk K fs = (Saved, K', fs')"
  shows "K' = K\<lparr>alertsSent := sliceLast maxAlertHistory (alertsSent K)\<rparr> \<and>
         stateFile fs' = Some (JSON_stringify (stateJson K')) \<and>
         loadState True fs' = map_of (stateProps K') \<and>
         (\<forall>L. loadState True fs' = map_of (stateProps L) \<longrightarrow> L = K')"
proof -
  from assms have k: "K' = K\<lparr>alertsSent := sliceLast maxAlertHistory (alertsSent K)\<rparr>"
    and f: "fs' = fs\<lparr>stateFile := Some (JSON_stringify (stateJson K'))\<rparr>"
    by (auto simp: saveState_def Let_def JSON_parse_def JSON_stringify_def split: if_splits)
  have l: "loadState True fs' = map_of (stateProps K')"
    unfolding f by (rule loadState_after_write)
  have u: "L = K'" if "loadState True fs' = map_of (stateProps L)" for L
    using that l stateProps_inj [of L K'] by simp
  from k f l u show ?thesis by simp
qed

theorem save_load_roundtrip_witness:
  "saveState True (kpRisingState\<lparr>alertsSent := [demoAlert ''kp-threshold'' High]\<rparr>) emptyFS =
     (Saved, kpRisingState\<lparr>alertsSent := [demoAlert ''kp-threshold'' High]\<rparr>,
      emptyFS\<lparr>stateFile := Some (JSON_stringify
        (stateJson (kpRisingState\<lparr>alertsSent := [demoAlert ''kp-threshold'' High]\<rparr>)))\<rparr>) \<and>
   loadState True (emptyFS\<lparr>stateFile := Some (JSON_stringify
        (stateJson (kpRisingState\<lparr>alertsSent := [demoAlert ''kp-threshold'' High]\<rparr>)))\<rparr>) =
     map_of (stateProps (kpRisingState\<lparr>alertsSent := [demoAlert ''kp-threshold'' High]\<rparr>))"
proof -
  let ?K = "kpRisingState\<lparr>alertsSent := [demoAlert ''kp-threshold'' High]\<rparr>"
  let ?fs = "emptyFS\<lparr>stateFile := Some (JSON_stringify (stateJson ?K))\<rparr>"
  have saved: "saveState True ?K emptyFS = (Saved, ?K, ?fs)"
    by (simp add: saveState_def sliceLast_def maxAlertHistory_def JSON_parse_def
        JSON_stringify_def Let_def)
  from saved save_load_roundtrip [OF saved] show ?thesis by blast
qed

section \<open>Cooldowns and history within a tick\<close>

lemma recordCooldowns_Nil: "recordCooldowns js t [] K = K"
  by (simp add: recordCooldowns_def)

lemma recordCooldowns_Cons:
  "recordCooldowns js t (a # sent) K = recordCooldowns js t sent (recordCooldown js t (a_type a) K)"
  by (simp add: recordCooldowns_def)

lemma recordCooldowns_lookup:
  "map_of (lastCooldowns (recordCooldowns js t sent K)) T =
    (if T \<in> a_type ` set sent then Some (toISOString js t) else map_of (lastCooldowns K) T)"
proof (induction sent arbitrary: K)
  case Nil
  show ?case by (simp add: recordCooldowns_Nil)
next
  case (Cons a sent)
  show ?case
    by (simp add: recordCooldowns_Cons Cons.IH recordCooldown_def update_conv')
qed

lemma recordCooldowns_alertsSent: "alertsSent (recordCooldowns js t sent K) = alertsSent K"
  by (induction sent arbitrary: K)
    (simp_all add: recordCooldowns_Nil recordCooldowns_Cons recordCooldown_def)

lemma runTick_sent: "r_sent (runTick js clk q sendOk writeOk S R H K fs) = alertsToSend js clk S R K"
  by (simp add: runTick_def Let_def)

lemma runTick_lastCooldowns:
  "lastCooldowns (r_state (runTick js clk q sendOk writeOk S R H K fs)) =
   lastCooldowns (recordCooldowns js (c_recordMs clk) (alertsToSend js clk S R K) K)"
  by (simp add: runTick_def Let_def saveState_def updateState_def JSON_parse_def
      JSON_stringify_def recordCooldowns_Nil)

lemma runTick_alertsSent:
  "alertsSent (r_state (runTick js clk q sendOk writeOk S R H K fs)) =
   sliceLast maxAlertHistory (alertsSent K @ alertsToSend js clk S R K)"
  by (simp add: runTick_def Let_def saveState_def updateState_def JSON_parse_def
      JSON_stringify_def recordCooldowns_alertsSent)

lemma runTick_file:
  "writeOk \<Longrightarrow> stateFile (r_fs (runTick js clk q sendOk writeOk S R H K fs)) =
     Some (JSON_stringify (stateJson (r_state (runTick js clk q sendOk writeOk S R H K fs))))"
  by (simp add: runTick_def Let_def saveState_def JSON_parse_def JSON_stringify_def)

lemma isCoolingDown_iff:
  "isCoolingDown js now T K =
    (\<exists>c ts t. map_of cooldowns T = Some c \<and> c \<noteq> 0 \<and> map_of (lastCooldowns K) T = Some ts \<and>
       ts \<noteq> [] \<and> getTime js ts = Some t \<and> now - t < c * 60 * 1000)"
  by (auto simp: isCoolingDown_def split: option.splits)


lemmas tick_defs = runTick_def alertsToSend_def evaluateAlerts_def kpAlerts_def bzAlerts_def
  windAlerts_def densityAlerts_def allClearAlerts_def isCoolingDown_def cooldowns_def
  DEFAULT_STATE_def quietSnapshot_def demoClock_def demoLib_def demoTimes_def
  activeRegionAlerts_enabled_def Let_def

lemmas run_defs = tick_defs updateState_def saveState_def sliceLast_def recordCooldowns_def
  recordCooldown_def dispatchAlerts_def dispatchAlert_def isQuietHours_def quietHours_def
  JSON_parse_def JSON_stringify_def maxAlertHistory_def orElse_def emptyFS_def
  noon_def evening_def stormSnapshot_def kpRisingState_def allSent_def noneSent_def

text \<open>
  Claim C4, as the specification states it, fails: the filter compares every candidate
  of a tick with the \<open>lastCooldowns\<close> of the previous state, and the cooldowns are
  recorded only after the whole list is filtered. After a storm with fast solar wind, the
  tick in which both Kp and the wind speed have recovered sends two alerts of the type
  all-clear, whose cooldown is 60 minutes, with the same timestamp.
\<close>

theorem same_tick_counterexample:
  "map (\<lambda>a. (a_id a, a_type a, a_timestamp a))
     (alertsToSend demoLib noon quietSnapshot [] recoveringState) =
   [(''all-clear-kp5-2024-05-10T12:00:00.000Z'', ''all-clear'', ''2024-05-10T12:00:00.000Z''),
    (''all-clear-wind700-2024-05-10T12:00:00.000Z'', ''all-clear'', ''2024-05-10T12:00:00.000Z'')] \<and>
   map_of cooldowns ''all-clear'' = Some 60"
  by (simp add: tick_defs noon_def recoveringState_def)

text \<open>
  Claim C4, amended. For an alert type \<open>T\<close> with the configured cooldown \<open>c\<close>:
  a candidate of type \<open>T\<close> is dropped exactly when \<open>c\<close> is not 0, the previous state
  has a non-empty, parseable \<open>lastCooldowns\<close> entry for \<open>T\<close> and less than \<open>c\<close> minutes
  have passed since that entry; a cooldown of 0 never suppresses; the alerts sent are the
  candidates that are not dropped; after the tick the entry of \<open>T\<close> is the record time
  of the tick when an alert of type \<open>T\<close> passed, and is unchanged otherwise. Hence when
  \<open>c\<close> is positive, an alert of type \<open>T\<close> passes the filter of a later tick, with no
  alert of that type recorded in between, only if at least \<open>c\<close> minutes lie between the
  record time of the earlier tick and the filter time of the later one. Candidates of
  the same tick are not compared with each other.
\<close>

theorem cooldown_between_ticks:
  assumes "map_of cooldowns T = Some c"
  shows
    "isCoolingDown js now T K =
       (c \<noteq> 0 \<and> (\<exists>ts t. map_of (lastCooldowns K) T = Some ts \<and> ts \<noteq> [] \<and>
          getTime js ts = Some t \<and> now - t < c * 60 * 1000)) \<and>
     (c = 0 \<longrightarrow> \<not> isCoolingDown js now T K) \<and>
     alertsToSend js clk S R K =
       filter (\<lambda>a. \<not> isCoolingDown js (c_filterMs clk) (a_type a) K)
         (evaluateAlerts js (c_evalAt clk) (c_evalMs clk) S R K) \<and>
     map_of (lastCooldowns (r_state (runTick js clk q sendOk writeOk S R H K fs))) T =
       (if T \<in> a_type ` set (r_sent (runTick js clk q sendOk writeOk S R H K fs))
        then Some (toISOString js (c_recordMs clk)) else map_of (lastCooldowns K) T) \<and>
     (0 < c \<and> earlier \<in> set (r_sent (runTick js clk q sendOk writeOk S R H K fs)) \<and> a_type earlier = T \<and>
      toISOString js (c_recordMs clk) \<noteq> [] \<and>
      getTime js (toISOString js (c_recordMs clk)) = Some (c_recordMs clk) \<and>
      map_of (lastCooldowns Knext) T =
        map_of (lastCooldowns (r_state (runTick js clk q sendOk writeOk S R H K fs))) T \<and>
      later \<in> set (alertsToSend js clkNext Snext Rnext Knext) \<and> a_type later = T
      \<longrightarrow> c * 60 * 1000 \<le> c_filterMs clkNext - c_recordMs clk)"
proof -
  let ?r = "runTick js clk q sendOk writeOk S R H K fs"
  have 1: "isCoolingDown js now T K =
       (c \<noteq> 0 \<and> (\<exists>ts t. map_of (lastCooldowns K) T = Some ts \<and> ts \<noteq> [] \<and>
          getTime js ts = Some t \<and> now - t < c * 60 * 1000))"
    using assms by (simp add: isCoolingDown_iff)
  have 2: "c = 0 \<longrightarrow> \<not> isCoolingDown js now T K"
    using assms by (simp add: isCoolingDown_iff)
  have 3: "alertsToSend js clk S R K =
       filter (\<lambda>a. \<not> isCoolingDown js (c_filterMs clk) (a_type a) K)
         (evaluateAlerts js (c_evalAt clk) (c_evalMs clk) S R K)"
    by (simp add: alertsToSend_def)
  have 4: "map_of (lastCooldowns (r_state ?r)) T =
       (if T \<in> a_type ` set (r_sent ?r)
        then Some (toISOString js (c_recordMs clk)) else map_of (lastCooldowns K) T)"
    by (simp only: runTick_lastCooldowns runTick_sent recordCooldowns_lookup)
  have 5: "c * 60 * 1000 \<le> c_filterMs clkNext - c_recordMs clk"
    if pos: "0 < c" and e: "earlier \<in> set (r_sent ?r)" "a_type earlier = T"
      and iso: "toISOString js (c_recordMs clk) \<noteq> []"
        "getTime js (toISOString js (c_recordMs clk)) = Some (c_recordMs clk)"
      and k2: "map_of (lastCooldowns Knext) T = map_of (lastCooldowns (r_state ?r)) T"
      and l: "later \<in> set (alertsToSend js clkNext Snext Rnext Knext)" "a_type later = T"
  proof -
    from e have "T \<in> a_type ` set (r_sent ?r)" by blast
    with 4 k2 have last: "map_of (lastCooldowns Knext) T = Some (toISOString js (c_recordMs clk))"
      by simp
    from l have "\<not> isCoolingDown js (c_filterMs clkNext) T Knext"
      by (auto simp: alertsToSend_def)
    with assms pos last iso show ?thesis
      by (simp add: isCoolingDown_iff)
  qed
  from 1 2 3 4 5 show ?thesis by blast
qed


lemma firstTick_sent:
  "map a_type (r_sent firstTick) = [''kp-threshold''] \<and>
   lastCooldowns (r_state firstTick) = [(''kp-threshold'', ''2024-05-10T12:00:00.000Z'')] \<and>
   map a_type (alertsToSend demoLib evening (stormSnapshot 7.3) [] (r_state firstTick)) =
     [''kp-threshold'']"
  by (simp add: firstTick_def run_defs)

theorem cooldown_between_ticks_witness:
  "map_of cooldowns ''kp-threshold'' = Some 180 \<and>
   hd (r_sent firstTick) \<in> set (r_sent firstTick) \<and>
   a_type (hd (r_sent firstTick)) = ''kp-threshold'' \<and>
   getTime demoLib (toISOString demoLib (c_recordMs noon)) = Some (c_recordMs noon) \<and>
   hd (alertsToSend demoLib evening (stormSnapshot 7.3) [] (r_state firstTick))
     \<in> set (alertsToSend demoLib evening (stormSnapshot 7.3) [] (r_state firstTick)) \<and>
   (180::int) * 60 * 1000 \<le> c_filterMs evening - c_recordMs noon \<and>
   isCoolingDown demoLib 1715343300000 ''kp-threshold'' (r_state firstTick) \<and>
   \<not> isCoolingDown demoLib (c_filterMs evening) ''kp-threshold'' (r_state firstTick)"
proof -
  have c: "map_of cooldowns ''kp-threshold'' = Some 180"
    by (simp add: cooldowns_def)
  have s1: "r_sent firstTick \<noteq> []" "a_type (hd (r_sent firstTick)) = ''kp-threshold''"
    using firstTick_sent by (auto simp: hd_map [symmetric])
  have s2: "alertsToSend demoLib evening (stormSnapshot 7.3) [] (r_state firstTick) \<noteq> []"
    "a_type (hd (alertsToSend demoLib evening (stormSnapshot 7.3) [] (r_state firstTick))) =
       ''kp-threshold''"
    using firstTick_sent by (auto simp: hd_map [symmetric])
  have iso: "toISOString demoLib (c_recordMs noon) \<noteq> []"
    "getTime demoLib (toISOString demoLib (c_recordMs noon)) = Some (c_recordMs noon)"
    by (simp_all add: noon_def demoClock_def demoLib_def demoTimes_def)
  have cd: "isCoolingDown demoLib 1715343300000 ''kp-threshold'' (r_state firstTick)"
    "\<not> isCoolingDown demoLib (c_filterMs evening) ''kp-threshold'' (r_state firstTick)"
    using firstTick_sent
    by (simp_all add: isCoolingDown_def cooldowns_def demoLib_def demoTimes_def evening_def
        demoClock_def)
  note inst = cooldown_between_ticks [OF c, where js = demoLib and clk = noon and q = quietHours
      and sendOk = allSent and writeOk = True and S = "stormSnapshot 5.3" and R = "[]"
      and H = "[]" and K = kpRisingState and fs = emptyFS
      and earlier = "hd (r_sent firstTick)" and Knext = "r_state firstTick"
      and later = "hd (alertsToSend demoLib evening (stormSnapshot 7.3) [] (r_state firstTick))"
      and clkNext = evening and Snext = "stormSnapshot 7.3" and Rnext = "[]"
      and now = 1715343300000, folded firstTick_def]
  from inst s1 s2 iso have "(180::int) * 60 * 1000 \<le> c_filterMs evening - c_recordMs noon"
    by simp
  with c s1 s2 iso cd show ?thesis by simp
qed


lemma drop_keeps_suffix: "n \<le> length xs \<Longrightarrow> set ys \<subseteq> set (drop n (xs @ ys))"
  by simp

lemma sliceLast_keeps_suffix:
  assumes "int (length ys) \<le> n"
  shows "set ys \<subseteq> set (sliceLast n (xs @ ys))"
proof (cases "n > 0")
  case True
  with assms have "length (xs @ ys) - nat n \<le> length xs" by simp
  then have "set ys \<subseteq> set (drop (length (xs @ ys) - nat n) (xs @ ys))"
    by (rule drop_keeps_suffix)
  with True show ?thesis by (simp add: sliceLast_def)
next
  case False
  with assms have "length ys = 0" by linarith
  then show ?thesis by simp
qed

lemma quiet_evaluate_flares:
  "evaluateAlerts demoLib now nowMs (quietSnapshot\<lparr>recentFlares := fs\<rparr>) [] DEFAULT_STATE =
   concat (map (flareAlerts demoLib now DEFAULT_STATE) fs)"
  by (simp add: evaluateAlerts_def kpAlerts_def bzAlerts_def windAlerts_def densityAlerts_def
      allClearAlerts_def DEFAULT_STATE_def quietSnapshot_def)

lemma nothing_cooling_initially: "\<not> isCoolingDown js now T DEFAULT_STATE"
  by (simp add: isCoolingDown_def DEFAULT_STATE_def split: option.splits)

lemma floodTick_sent:
  "r_sent floodTick = concat (map (flareAlerts demoLib ''2024-05-10T12:00:00.000Z'' DEFAULT_STATE) flareFlood)"
  by (simp add: floodTick_def runTick_sent alertsToSend_def nothing_cooling_initially
      quiet_evaluate_flares noon_def demoClock_def)

lemma x_flare_alert:
  "take 1 cls = ''X'' \<Longrightarrow>
   flareAlerts demoLib ''2024-05-10T12:00:00.000Z'' DEFAULT_STATE
     (demoFlare ident ''2024-05-10T11:30:00.000Z'' cls) = [xAlert ident cls]"
  by (simp add: flareAlerts_def demoFlare_def DEFAULT_STATE_def charAt0_def demoLib_def
      xAlert_def Let_def)

lemma floodTick_sent_list:
  "r_sent floodTick =
     xAlert ''FLR-0'' ''X9.9'' # map (\<lambda>i. xAlert (''FLR-'' @ showNat i) ''X1.0'') [1..<101]"
proof -
  have "concat (map (\<lambda>i. flareAlerts demoLib ''2024-05-10T12:00:00.000Z'' DEFAULT_STATE
            (demoFlare (''FLR-'' @ showNat i) ''2024-05-10T11:30:00.000Z'' ''X1.0'')) is) =
        map (\<lambda>i. xAlert (''FLR-'' @ showNat i) ''X1.0'') is" for "is"
    by (induction "is") (simp_all add: x_flare_alert)
  then show ?thesis
    by (simp add: floodTick_sent flareFlood_def x_flare_alert comp_def)
qed

text \<open>
  Claim C10, as stated, fails at the cap of the history: \<open>saveState\<close> keeps the last
  \<open>maxAlertHistory\<close> entries, so when more than 100 alerts pass the filter in one tick
  the first of them are not in the persisted history. On a first run that finds 101
  X-class flares, all 101 alerts pass (the cooldown of flare-x is 0) and the first one is
  not in the history that is saved.
\<close>

theorem history_cap_counterexample:
  "length (r_sent floodTick) = 101 \<and>
   r_outcome floodTick = Saved \<and>
   hd (r_sent floodTick) \<in> set (r_sent floodTick) \<and>
   hd (r_sent floodTick) \<notin> set (alertsSent (r_state floodTick))"
proof -
  let ?rest = "map (\<lambda>i. xAlert (''FLR-'' @ showNat i) ''X1.0'') [1..<101]"
  have len: "length (r_sent floodTick) = 101"
    by (simp add: floodTick_sent_list)
  have "alertsSent (r_state floodTick) =
      sliceLast maxAlertHistory (alertsSent DEFAULT_STATE @ r_sent floodTick)"
    by (simp only: floodTick_def runTick_alertsSent runTick_sent)
  also have "\<dots> = drop 1 (r_sent floodTick)"
    using len by (simp add: sliceLast_def maxAlertHistory_def DEFAULT_STATE_def)
  also have "\<dots> = ?rest"
    by (simp add: floodTick_sent_list)
  finally have hist: "alertsSent (r_state floodTick) = ?rest" .
  have out: "r_outcome floodTick = Saved"
    by (simp add: floodTick_def runTick_def saveState_def JSON_parse_def JSON_stringify_def Let_def)
  have h: "hd (r_sent floodTick) = xAlert ''FLR-0'' ''X9.9''"
    by (simp add: floodTick_sent_list)
  have "xAlert ''FLR-0'' ''X9.9'' \<notin> set ?rest"
    by (auto simp: xAlert_def)
  with len hist out h show ?thesis
    by (simp add: floodTick_sent_list)
qed

text \<open>
  Claim C10, amended. Every alert that passes the cooldown filter of a tick has the
  \<open>lastCooldowns\<close> entry of its type set to the record time of the tick, and is appended
  to \<open>alertsSent\<close>, of which the last \<open>maxAlertHistory\<close> entries are kept and written to
  the state file; so it is in the persisted history whenever at most \<open>maxAlertHistory\<close>
  alerts pass in the tick. None of this depends on the delivery: the alerts sent, the
  state and the files are the same whatever the quiet hours, the local hour and the
  success of the senders.
\<close>

theorem recorded_whatever_delivery:
  "(\<forall>a \<in> set (r_sent (runTick js clk q sendOk writeOk S R H K fs)).
      map_of (lastCooldowns (r_state (runTick js clk q sendOk writeOk S R H K fs))) (a_type a) =
        Some (toISOString js (c_recordMs clk))) \<and>
   alertsSent (r_state (runTick js clk q sendOk writeOk S R H K fs)) =
     sliceLast maxAlertHistory (alertsSent K @ r_sent (runTick js clk q sendOk writeOk S R H K fs)) \<and>
   (int (length (r_sent (runTick js clk q sendOk writeOk S R H K fs))) \<le> maxAlertHistory \<longrightarrow>
      set (r_sent (runTick js clk q sendOk writeOk S R H K fs))
        \<subseteq> set (alertsSent (r_state (runTick js clk q sendOk writeOk S R H K fs)))) \<and>
   (writeOk \<longrightarrow>
      stateFile (r_fs (runTick js clk q sendOk writeOk S R H K fs)) =
        Some (JSON_stringify (stateJson (r_state (runTick js clk q sendOk writeOk S R H K fs))))) \<and>
   r_sent (runTick js (clk\<lparr>c_hour := hour'\<rparr>) q' sendOk' writeOk S R H K fs) =
     r_sent (runTick js clk q sendOk writeOk S R H K fs) \<and>
   r_state (runTick js (clk\<lparr>c_hour := hour'\<rparr>) q' sendOk' writeOk S R H K fs) =
     r_state (runTick js clk q sendOk writeOk S R H K fs) \<and>
   r_fs (runTick js (clk\<lparr>c_hour := hour'\<rparr>) q' sendOk' writeOk S R H K fs) =
     r_fs (runTick js clk q sendOk writeOk S R H K fs)"
proof -
  let ?r = "runTick js clk q sendOk writeOk S R H K fs"
  let ?r' = "runTick js (clk\<lparr>c_hour := hour'\<rparr>) q' sendOk' writeOk S R H K fs"
  have 1: "\<forall>a \<in> set (r_sent ?r).
      map_of (lastCooldowns (r_state ?r)) (a_type a) = Some (toISOString js (c_recordMs clk))"
    by (simp add: runTick_lastCooldowns runTick_sent recordCooldowns_lookup)
  have 2: "alertsSent (r_state ?r) = sliceLast maxAlertHistory (alertsSent K @ r_sent ?r)"
    by (simp only: runTick_alertsSent runTick_sent)
  have 3: "int (length (r_sent ?r)) \<le> maxAlertHistory \<longrightarrow>
      set (r_sent ?r) \<subseteq> set (alertsSent (r_state ?r))"
    unfolding 2 using sliceLast_keeps_suffix by blast
  have 4: "writeOk \<longrightarrow> stateFile (r_fs ?r) = Some (JSON_stringify (stateJson (r_state ?r)))"
    using runTick_file by blast
  have 5: "r_sent ?r' = r_sent ?r" "r_state ?r' = r_state ?r" "r_fs ?r' = r_fs ?r"
    by (simp_all add: runTick_def alertsToSend_def Let_def)
  from 1 2 3 4 5 show ?thesis by blast
qed

lemma nightTick_values:
  "map a_type (r_sent nightTick) = [''kp-threshold''] \<and>
   map a_urgency (r_sent nightTick) = [High] \<and>
   length (r_sent nightTick) = 1 \<and>
   r_delivered nightTick = [] \<and>
   r_outcome nightTick = Saved \<and>
   lastCooldowns (r_state nightTick) = [(''kp-threshold'', ''2024-05-10T12:00:00.000Z'')] \<and>
   alertsSent (r_state nightTick) = r_sent nightTick"
  by (simp add: nightTick_def run_defs)

theorem recorded_whatever_delivery_witness:
  "map a_type (r_sent nightTick) = [''kp-threshold''] \<and>
   map a_urgency (r_sent nightTick) = [High] \<and>
   isQuietHours quietHours 2 \<and>
   r_delivered nightTick = [] \<and>
   int (length (r_sent nightTick)) \<le> maxAlertHistory \<and>
   map_of (lastCooldowns (r_state nightTick)) ''kp-threshold'' =
     Some (toISOString demoLib 1715342400000) \<and>
   hd (r_sent nightTick) \<in> set (alertsSent (r_state nightTick)) \<and>
   stateFile (r_fs nightTick) = Some (JSON_stringify (stateJson (r_state nightTick)))"
proof -
  note inst = recorded_whatever_delivery [where js = demoLib
      and clk = "demoClock ''2024-05-10T12:00:00.000Z'' 1715342400000 2"
      and q = quietHours and sendOk = noneSent and writeOk = True and S = "stormSnapshot 5.3"
      and R = "[]" and H = "[]" and K = kpRisingState and fs = emptyFS and hour' = 12
      and q' = quietHours and sendOk' = allSent, folded nightTick_def]
  have ne: "r_sent nightTick \<noteq> []" "a_type (hd (r_sent nightTick)) = ''kp-threshold''"
    using nightTick_values by (auto simp: hd_map [symmetric])
  have len: "int (length (r_sent nightTick)) \<le> maxAlertHistory"
    using nightTick_values by (simp add: maxAlertHistory_def)
  from inst have "\<forall>a \<in> set (r_sent nightTick).
      map_of (lastCooldowns (r_state nightTick)) (a_type a) = Some (toISOString demoLib 1715342400000)"
    by (simp add: demoClock_def)
  with ne have cd: "map_of (lastCooldowns (r_state nightTick)) ''kp-threshold'' =
     Some (toISOString demoLib 1715342400000)"
    by (metis hd_in_set)
  from inst len ne have mem: "hd (r_sent nightTick) \<in> set (alertsSent (r_state nightTick))"
    by (meson hd_in_set subsetD)
  from inst have written: "stateFile (r_fs nightTick) = Some (JSON_stringify (stateJson (r_state nightTick)))"
    by simp
  have q: "isQuietHours quietHours 2"
    by (simp add: isQuietHours_def quietHours_def)
  from nightTick_values len cd mem written q show ?thesis by simp
qed

section \<open>Submitting a prediction\<close>

lemma sliceLast_last:
  assumes "xs \<noteq> []" and "0 \<le> n"
  shows "sliceLast n xs \<noteq> [] \<and> last (sliceLast n xs) = last xs"
proof (cases "n > 0")
  case True
  then have "length xs - nat n < length xs" using assms(1) by (cases xs) auto
  then show ?thesis using True by (simp add: sliceLast_def)
next
  case False
  with assms show ?thesis by (simp add: sliceLast_def)
qed

lemma capPredictions_last:
  assumes "predictions st \<noteq> []" and "0 \<le> maxPredictions (config st)"
  shows "predictions (capPredictions st) \<noteq> [] \<and>
         last (predictions (capPredictions st)) = last (predictions st)"
  using assms sliceLast_last [of "predictions st" "maxPredictions (config st)"]
  by (simp add: capPredictions_def)

lemma capPredictions_config: "config (capPredictions st) = config st"
  by (simp add: capPredictions_def)

lemma isWithinCooldown_iff:
  "isWithinCooldown js now st =
    (predictions st \<noteq> [] \<and>
     (\<exists>t. getTime js (p_timestamp (last (predictions st))) = Some t \<and>
          now - t < cooldownHours (config st) * 60 * 60 * 1000))"
  by (auto simp: isWithinCooldown_def split: option.splits)

lemma bodyNote_error: "(\<exists>e. bodyNote js body = Inl e) = (body = Some JNull)"
  by (auto simp: bodyNote_def split: option.splits json.splits)

text \<open>
  Claim C7, as stated, fails on two kinds of request. A request that is not authorized is
  answered 401 before the handler looks at the cooldown; an authorized request whose JSON
  body is \<open>null\<close> is answered 500, because the note is read from the body before the
  cooldown is checked. Neither gets the status 429 within the cooldown nor a new
  prediction outside of it.
\<close>

theorem post_unauthorized_counterexample:
  "\<not> isWithinCooldown demoLib 1715342400000 noPredictions \<and>
   POST demoLib 1715342400000 1715342400000 ''uuid-1'' (Some ''secret'') None None True
     noPredictions (Some noPredictions) = (Status401, Some noPredictions) \<and>
   isWithinCooldown demoLib 1715342400000 freshPredictions \<and>
   POST demoLib 1715342400000 1715342400000 ''uuid-1'' (Some ''secret'') (Some ''Bearer guess'') None
     True freshPredictions (Some freshPredictions) = (Status401, Some freshPredictions) \<and>
   isAuthorized None None \<and>
   POST demoLib 1715342400000 1715342400000 ''uuid-1'' None None (Some JNull) True
     noPredictions (Some noPredictions) = (Status500, Some noPredictions) \<and>
   POST demoLib 1715342400000 1715342400000 ''uuid-1'' None None (Some JNull) True
     freshPredictions (Some freshPredictions) = (Status500, Some freshPredictions)"
  by (simp add: POST_def isAuthorized_def bodyNote_def isWithinCooldown_def noPredictions_def
      freshPredictions_def recentPrediction_def DEFAULT_CONFIG_def demoLib_def demoTimes_def)

text \<open>
  Claim C7, amended. A submission that is not authorized is answered 401, and an
  authorized one whose JSON body is \<open>null\<close> is answered 500; both leave the store as it
  is. An authorized submission with any other body is rejected with the status 429, the
  error cooldown and \<open>cooldownEnds\<close> (the timestamp of the most recent prediction plus
  \<open>cooldownHours\<close>) exactly when there is a prediction and the most recent one is
  younger than \<open>cooldownHours\<close>; the store is then unchanged. Otherwise, when the store
  takes the write, a new prediction with the status pending, the window end at the
  submission time plus \<open>verificationWindowHours\<close>, no \<open>verifiedAt\<close> and no matched
  events is appended to the list, stored (as the last prediction, after the cap) and
  returned; when the store refuses the write, the answer is 500 and the store is unchanged.
\<close>

theorem post_cooldown_or_append:
  "(\<not> isAuthorized token auth \<longrightarrow>
      POST js checkMs nowMs uuid token auth body saveOk state store = (Status401, store)) \<and>
   (isAuthorized token auth \<and> body = Some JNull \<longrightarrow>
      POST js checkMs nowMs uuid token auth body saveOk state store = (Status500, store)) \<and>
   isWithinCooldown js checkMs state =
     (predictions state \<noteq> [] \<and>
      (\<exists>t. getTime js (p_timestamp (last (predictions state))) = Some t \<and>
           checkMs - t < cooldownHours (config state) * 60 * 60 * 1000)) \<and>
   (isAuthorized token auth \<and> body \<noteq> Some JNull \<longrightarrow>
      (\<exists>m e. fst (POST js checkMs nowMs uuid token auth body saveOk state store) = Status429 m e) =
        isWithinCooldown js checkMs state \<and>
      (isWithinCooldown js checkMs state \<longrightarrow>
         (\<exists>m t. getTime js (p_timestamp (last (predictions state))) = Some t \<and>
            POST js checkMs nowMs uuid token auth body saveOk state store =
              (Status429 m (toISOString js (t + cooldownHours (config state) * 60 * 60 * 1000)),
               store))) \<and>
      (\<not> isWithinCooldown js checkMs state \<and> saveOk \<longrightarrow>
         (\<exists>p. POST js checkMs nowMs uuid token auth body saveOk state store =
                (Status200 p,
                 Some (capPredictions (state\<lparr>predictions := predictions state @ [p]\<rparr>))) \<and>
              p_id p = uuid \<and> p_status p = Pending \<and> p_verifiedAt p = None \<and>
              p_matchedEvents p = [] \<and> p_timestamp p = toISOString js nowMs \<and>
              p_windowHours p = verificationWindowHours (config state) \<and>
              p_windowEnd p =
                toISOString js (nowMs + verificationWindowHours (config state) * 60 * 60 * 1000) \<and>
              (0 \<le> maxPredictions (config state) \<longrightarrow>
                 last (predictions
                   (capPredictions (state\<lparr>predictions := predictions state @ [p]\<rparr>))) = p))) \<and>
      (\<not> isWithinCooldown js checkMs state \<and> \<not> saveOk \<longrightarrow>
         POST js checkMs nowMs uuid token auth body saveOk state store = (Status500, store)))"
proof -
  let ?post = "POST js checkMs nowMs uuid token auth body saveOk state store"
  have 0: "?post = (Status401, store)" if "\<not> isAuthorized token auth"
    using that by (simp add: POST_def)
  have n: "?post = (Status500, store)" if "isAuthorized token auth" "body = Some JNull"
    using that by (simp add: POST_def bodyNote_def)
  have 1: "isWithinCooldown js checkMs state =
       (predictions state \<noteq> [] \<and>
        (\<exists>t. getTime js (p_timestamp (last (predictions state))) = Some t \<and>
             checkMs - t < cooldownHours (config state) * 60 * 60 * 1000))"
    by (rule isWithinCooldown_iff)
  have rest: "(\<exists>m e. fst ?post = Status429 m e) = isWithinCooldown js checkMs state \<and>
      (isWithinCooldown js checkMs state \<longrightarrow>
         (\<exists>m t. getTime js (p_timestamp (last (predictions state))) = Some t \<and>
            ?post =
              (Status429 m (toISOString js (t + cooldownHours (config state) * 60 * 60 * 1000)),
               store))) \<and>
      (\<not> isWithinCooldown js checkMs state \<and> saveOk \<longrightarrow>
         (\<exists>p. ?post =
                (Status200 p,
                 Some (capPredictions (state\<lparr>predictions := predictions state @ [p]\<rparr>))) \<and>
              p_id p = uuid \<and> p_status p = Pending \<and> p_verifiedAt p = None \<and>
              p_matchedEvents p = [] \<and> p_timestamp p = toISOString js nowMs \<and>
              p_windowHours p = verificationWindowHours (config state) \<and>
              p_windowEnd p =
                toISOString js (nowMs + verificationWindowHours (config state) * 60 * 60 * 1000) \<and>
              (0 \<le> maxPredictions (config state) \<longrightarrow>
                 last (predictions
                   (capPredictions (state\<lparr>predictions := predictions state @ [p]\<rparr>))) = p))) \<and>
      (\<not> isWithinCooldown js checkMs state \<and> \<not> saveOk \<longrightarrow> ?post = (Status500, store))"
    if au: "isAuthorized token auth" and bn: "body \<noteq> Some JNull"
  proof -
    from bn obtain nt where nt: "bodyNote js body = Inr nt"
      using bodyNote_error [of js body] by (cases "bodyNote js body") auto
    have 3: "\<exists>m t. getTime js (p_timestamp (last (predictions state))) = Some t \<and>
           ?post = (Status429 m (toISOString js (t + cooldownHours (config state) * 60 * 60 * 1000)),
              store)"
      if w: "isWithinCooldown js checkMs state"
    proof -
      from w obtain t where t: "getTime js (p_timestamp (last (predictions state))) = Some t"
        by (auto simp: isWithinCooldown_iff)
      with w au nt show ?thesis
        by (simp add: POST_def Let_def)
    qed
    have 4: "\<exists>p. ?post =
               (Status200 p,
                Some (capPredictions (state\<lparr>predictions := predictions state @ [p]\<rparr>))) \<and>
             p_id p = uuid \<and> p_status p = Pending \<and> p_verifiedAt p = None \<and>
             p_matchedEvents p = [] \<and> p_timestamp p = toISOString js nowMs \<and>
             p_windowHours p = verificationWindowHours (config state) \<and>
             p_windowEnd p =
               toISOString js (nowMs + verificationWindowHours (config state) * 60 * 60 * 1000) \<and>
             (0 \<le> maxPredictions (config state) \<longrightarrow>
                last (predictions
                  (capPredictions (state\<lparr>predictions := predictions state @ [p]\<rparr>))) = p)"
      if nw: "\<not> isWithinCooldown js checkMs state" and ok: "saveOk"
    proof -
      let ?p = "\<lparr>p_id = uuid,
                  p_timestamp = toISOString js nowMs,
                  p_note = (case nt of None \<Rightarrow> None
                            | Some n \<Rightarrow> if n = [] then None else Some n),
                  p_status = Pending,
                  p_verifiedAt = None,
                  p_windowHours = verificationWindowHours (config state),
                  p_windowEnd =
                    toISOString js (nowMs + verificationWindowHours (config state) * 60 * 60 * 1000),
                  p_matchedEvents = []\<rparr>"
      have post: "?post =
          (Status200 ?p, Some (capPredictions (state\<lparr>predictions := predictions state @ [?p]\<rparr>)))"
        using nw ok au nt by (simp add: POST_def Let_def savePredictions_def)
      have "0 \<le> maxPredictions (config state) \<longrightarrow>
          last (predictions (capPredictions (state\<lparr>predictions := predictions state @ [?p]\<rparr>))) = ?p"
        using capPredictions_last [of "state\<lparr>predictions := predictions state @ [?p]\<rparr>"]
        by simp
      with post show ?thesis
        by (intro exI [of _ ?p]) simp
    qed
    have 5: "?post = (Status500, store)"
      if "\<not> isWithinCooldown js checkMs state" "\<not> saveOk"
      using that au nt by (simp add: POST_def Let_def savePredictions_def)
    have 2: "(\<exists>m e. fst ?post = Status429 m e) = isWithinCooldown js checkMs state"
    proof (cases "isWithinCooldown js checkMs state")
      case True
      with 3 show ?thesis by force
    next
      case False
      with au nt have "fst ?post = Status500 \<or> (\<exists>p. fst ?post = Status200 p)"
        by (auto simp: POST_def Let_def savePredictions_def)
      with False show ?thesis by auto
    qed
    from 2 3 4 5 show ?thesis by blast
  qed
  from 0 n 1 rest show ?thesis by blast
qed

theorem post_cooldown_or_append_witness:
  "isAuthorized None None \<and>
   \<not> isAuthorized (Some ''secret'') (Some ''Bearer guess'') \<and>
   POST demoLib 1715342400000 1715342400000 ''uuid-1'' (Some ''secret'') (Some ''Bearer guess'')
     None True freshPredictions (Some freshPredictions) = (Status401, Some freshPredictions) \<and>
   POST demoLib 1715342400000 1715342400000 ''uuid-1'' None None (Some JNull) True
     freshPredictions (Some freshPredictions) = (Status500, Some freshPredictions) \<and>
   isWithinCooldown demoLib 1715342400000 freshPredictions \<and>
   POST demoLib 1715342400000 1715342400000 ''uuid-1'' None None None True
     freshPredictions (Some freshPredictions) =
     (Status429 (''Too soon '' @ garbledDash @ '' wait until (time)'') ''2024-05-10T17:30:00.000Z'',
      Some freshPredictions) \<and>
   (\<exists>m e. fst (POST demoLib 1715342400000 1715342400000 ''uuid-1'' None None None True
      freshPredictions (Some freshPredictions)) = Status429 m e) \<and>
   \<not> isWithinCooldown demoLib 1715342400000 noPredictions \<and>
   (\<exists>p. POST demoLib 1715342400000 1715342400000 ''uuid-1'' None None
      (Some (JObj [(''note'', JStr ''headache'')])) True noPredictions None =
      (Status200 p, Some (capPredictions (noPredictions\<lparr>predictions := predictions noPredictions @ [p]\<rparr>))) \<and>
      p_status p = Pending \<and> p_id p = ''uuid-1'') \<and>
   fst (POST demoLib 1715342400000 1715342400000 ''uuid-1'' None None
     (Some (JObj [(''note'', JStr ''headache'')])) True noPredictions None) =
     Status200
       \<lparr>p_id = ''uuid-1'', p_timestamp = ''2024-05-10T12:00:00.000Z'', p_note = Some ''headache'',
        p_status = Pending, p_verifiedAt = None, p_windowHours = 48,
        p_windowEnd = ''2024-05-12T12:00:00.000Z'', p_matchedEvents = []\<rparr>"
proof -
  have a: "isAuthorized None None" "\<not> isAuthorized (Some ''secret'') (Some ''Bearer guess'')"
    by (simp_all add: isAuthorized_def)
  have w: "isWithinCooldown demoLib 1715342400000 freshPredictions"
    "\<not> isWithinCooldown demoLib 1715342400000 noPredictions"
    by (simp_all add: isWithinCooldown_def freshPredictions_def noPredictions_def
        recentPrediction_def DEFAULT_CONFIG_def demoLib_def demoTimes_def)
  have b: "(None :: json option) \<noteq> Some JNull"
    by simp
  note unauth = post_cooldown_or_append [where js = demoLib and checkMs = 1715342400000
      and nowMs = 1715342400000 and uuid = "''uuid-1''" and token = "Some ''secret''"
      and auth = "Some ''Bearer guess''" and body = None and saveOk = True
      and state = freshPredictions and store = "Some freshPredictions"]
  note null = post_cooldown_or_append [where js = demoLib and checkMs = 1715342400000
      and nowMs = 1715342400000 and uuid = "''uuid-1''" and token = None
      and auth = None and body = "Some JNull" and saveOk = True
      and state = freshPredictions and store = "Some freshPredictions"]
  note inst = post_cooldown_or_append [where js = demoLib and checkMs = 1715342400000
      and nowMs = 1715342400000 and uuid = "''uuid-1''" and token = None
      and auth = None and body = None and saveOk = True
      and state = freshPredictions and store = "Some freshPredictions"]
  from unauth a have u: "POST demoLib 1715342400000 1715342400000 ''uuid-1'' (Some ''secret'')
     (Some ''Bearer guess'') None True freshPredictions (Some freshPredictions) =
     (Status401, Some freshPredictions)"
    by blast
  from null a have z: "POST demoLib 1715342400000 1715342400000 ''uuid-1'' None None (Some JNull) True
     freshPredictions (Some freshPredictions) = (Status500, Some freshPredictions)"
    by blast
  note fresh = post_cooldown_or_append [where js = demoLib and checkMs = 1715342400000
      and nowMs = 1715342400000 and uuid = "''uuid-1''" and token = None
      and auth = None and body = "Some (JObj [(''note'', JStr ''headache'')])" and saveOk = True
      and state = noPredictions and store = None]
  have c: "Some (JObj [(''note'', JStr ''headache'')]) \<noteq> Some JNull"
    by simp
  from fresh a c w have f: "\<exists>p. POST demoLib 1715342400000 1715342400000 ''uuid-1'' None None
      (Some (JObj [(''note'', JStr ''headache'')])) True noPredictions None =
      (Status200 p, Some (capPredictions (noPredictions\<lparr>predictions := predictions noPredictions @ [p]\<rparr>))) \<and>
      p_status p = Pending \<and> p_id p = ''uuid-1''"
    by blast
  from inst a b w have e: "\<exists>m e. fst (POST demoLib 1715342400000 1715342400000 ''uuid-1'' None None
      None True freshPredictions (Some freshPredictions)) = Status429 m e"
    by blast
  have p1: "POST demoLib 1715342400000 1715342400000 ''uuid-1'' None None None True
     freshPredictions (Some freshPredictions) =
     (Status429 (''Too soon '' @ garbledDash @ '' wait until (time)'') ''2024-05-10T17:30:00.000Z'',
      Some freshPredictions)"
    using w
    by (simp add: POST_def a bodyNote_def freshPredictions_def recentPrediction_def
        DEFAULT_CONFIG_def demoLib_def demoTimes_def)
  have p2: "fst (POST demoLib 1715342400000 1715342400000 ''uuid-1'' None None
     (Some (JObj [(''note'', JStr ''headache'')])) True noPredictions None) =
     Status200
       \<lparr>p_id = ''uuid-1'', p_timestamp = ''2024-05-10T12:00:00.000Z'', p_note = Some ''headache'',
        p_status = Pending, p_verifiedAt = None, p_windowHours = 48,
        p_windowEnd = ''2024-05-12T12:00:00.000Z'', p_matchedEvents = []\<rparr>"
    using w
    by (simp add: POST_def a bodyNote_def savePredictions_def noPredictions_def DEFAULT_CONFIG_def
        demoLib_def demoTimes_def Let_def)
  from a w u z e f p1 p2 show ?thesis by blast
qed

section \<open>Prediction verification\<close>

lemma pushAll_Nil: "pushAll [] acc = acc"
  by (simp add: pushAll_def)

lemma pushAll_Cons: "pushAll (item # items) acc = pushAll items (pushEvent (fst item) (snd item) acc)"
  by (simp add: pushAll_def)

lemma pushAll_append: "pushAll (xs @ ys) acc = pushAll ys (pushAll xs acc)"
  by (simp add: pushAll_def)

lemma pushAll_single: "pushAll [(k, e)] acc = pushEvent k e acc"
  by (simp add: pushAll_def)

lemma fold_steps_as_items:
  assumes "\<And>x acc. step x acc = pushAll (items x) acc"
  shows "fold step xs acc = pushAll (concat (map items xs)) acc"
  by (induction xs arbitrary: acc) (simp_all add: pushAll_Nil pushAll_append assms)

lemma alertStep_items: "alertStep js s e a acc = pushAll (alertItems js s e a) acc"
  by (simp add: alertStep_def alertItems_def pushAll_Nil pushAll_single keyStr_def
      split: option.splits)

lemma flareStep_items: "flareStep js s e f acc = pushAll (flareItems js s e f) acc"
  by (simp add: flareStep_def flareItems_def pushAll_Nil pushAll_single)

lemma stormStep_items: "stormStep js s e x acc = pushAll (stormItems js s e x) acc"
  by (simp add: stormStep_def stormItems_def pushAll_Nil pushAll_single)

lemma cmeStep_items: "cmeStep js s e c acc = pushAll (cmeItems js s e c) acc"
  by (simp add: cmeStep_def cmeItems_def pushAll_Nil pushAll_single)

lemma findMatchingEvents_items:
  "findMatchingEvents js p K S = fst (pushAll (allItems js p K S) ([], {}))"
  by (simp add: findMatchingEvents_def Let_def allItems_def pushAll_append
      fold_steps_as_items [of _ "alertItems js _ _", OF alertStep_items]
      fold_steps_as_items [of _ "flareItems js _ _", OF flareStep_items]
      fold_steps_as_items [of _ "stormItems js _ _", OF stormStep_items]
      fold_steps_as_items [of _ "cmeItems js _ _", OF cmeStep_items])


lemma pushEvent_ok: "accOK acc \<Longrightarrow> accOK (pushEvent (keyStr e) e acc)"
  by (auto simp: accOK_def pushEvent_def)

lemma pushEvent_events:
  "set (fst (pushEvent k e acc)) \<subseteq> insert e (set (fst acc))"
  by (auto simp: pushEvent_def)

lemma pushEvent_keys:
  "accOK acc \<Longrightarrow>
   keyStr ` set (fst (pushEvent (keyStr e) e acc)) = insert (keyStr e) (keyStr ` set (fst acc))"
  by (auto simp: accOK_def pushEvent_def)

lemma pushAll_ok:
  assumes "\<forall>item \<in> set items. fst item = keyStr (snd item)" and "accOK acc"
  shows "accOK (pushAll items acc) \<and>
         set (fst (pushAll items acc)) \<subseteq> set (fst acc) \<union> snd ` set items \<and>
         keyStr ` set (fst (pushAll items acc)) = keyStr ` set (fst acc) \<union> fst ` set items"
  using assms
proof (induction items arbitrary: acc)
  case Nil
  then show ?case by (simp add: pushAll_Nil)
next
  case (Cons item items)
  let ?acc = "pushEvent (fst item) (snd item) acc"
  from Cons.prems have k: "fst item = keyStr (snd item)" by simp
  from Cons.prems have ok: "accOK ?acc" by (simp add: k pushEvent_ok)
  from Cons.prems have rest: "\<forall>item \<in> set items. fst item = keyStr (snd item)" by simp
  note ih = Cons.IH [OF rest ok]
  have ev: "set (fst ?acc) \<subseteq> insert (snd item) (set (fst acc))"
    by (rule pushEvent_events)
  have ks: "keyStr ` set (fst ?acc) = insert (fst item) (keyStr ` set (fst acc))"
    using Cons.prems(2) by (simp add: k pushEvent_keys)
  from ih ev ks show ?case
    by (auto simp: pushAll_Cons)
qed

lemma accOK_empty: "accOK ([], {})"
  by (simp add: accOK_def)


lemma alertEvent_shape:
  "alertEvent a =
    (if a_type a \<in> set spec_qualifyingTypes
     then Some \<lparr>ev_type = spec_eventType (a_type a), ev_description = a_title a,
                ev_timestamp = a_timestamp a\<rparr>
     else None)"
  by (simp add: alertEvent_def spec_qualifyingTypes_def spec_eventType_def)

lemma spec_eventType_known: "spec_eventType ty \<in> set eventTypes"
  by (simp add: spec_eventType_def eventTypes_def)

lemma alertItems_keyed:
  "item \<in> set (alertItems js s e a) \<Longrightarrow>
   fst item = keyStr (snd item) \<and> ev_type (snd item) \<in> set eventTypes"
  using spec_eventType_known [of "a_type a"]
  by (auto simp: alertItems_def alertEvent_shape split: if_splits)

lemma flareItems_keyed:
  "item \<in> set (flareItems js s e f) \<Longrightarrow>
   fst item = keyStr (snd item) \<and> ev_type (snd item) \<in> set eventTypes"
  by (auto simp: flareItems_def keyStr_def eventTypes_def split: if_splits)

lemma stormItems_keyed:
  "item \<in> set (stormItems js s e x) \<Longrightarrow>
   fst item = keyStr (snd item) \<and> ev_type (snd item) \<in> set eventTypes"
  by (auto simp: stormItems_def keyStr_def eventTypes_def split: if_splits)

lemma cmeItems_keyed:
  "item \<in> set (cmeItems js s e c) \<Longrightarrow>
   fst item = keyStr (snd item) \<and> ev_type (snd item) \<in> set eventTypes"
  by (auto simp: cmeItems_def keyStr_def eventTypes_def split: if_splits)

lemma concat_items_keyed:
  assumes "\<And>x item. item \<in> set (items x) \<Longrightarrow> P item"
  shows "item \<in> set (concat (map items xs)) \<Longrightarrow> P item"
  using assms by auto

lemma allItems_keyed:
  assumes "item \<in> set (allItems js p K S)"
  shows "fst item = keyStr (snd item) \<and> ev_type (snd item) \<in> set eventTypes"
proof -
  let ?s = "getTime js (p_timestamp p)" and ?e = "getTime js (p_windowEnd p)"
  from assms consider
      "item \<in> set (concat (map (alertItems js ?s ?e) (alertsSent K)))"
    | "item \<in> set (concat (map (flareItems js ?s ?e) (recentFlares S)))"
    | "item \<in> set (concat (map (stormItems js ?s ?e) (recentStorms S)))"
    | "item \<in> set (concat (map (cmeItems js ?s ?e) (earthDirectedCMEs S)))"
    unfolding allItems_def set_append Un_iff by blast
  then show ?thesis
  proof cases
    case 1
    then show ?thesis by (rule concat_items_keyed [rotated]) (rule alertItems_keyed)
  next
    case 2
    then show ?thesis by (rule concat_items_keyed [rotated]) (rule flareItems_keyed)
  next
    case 3
    then show ?thesis by (rule concat_items_keyed [rotated]) (rule stormItems_keyed)
  next
    case 4
    then show ?thesis by (rule concat_items_keyed [rotated]) (rule cmeItems_keyed)
  qed
qed

lemma keyStr_eventKey:
  assumes "ev_type a \<in> set eventTypes" and "ev_type b \<in> set eventTypes"
  shows "(keyStr a = keyStr b) = (eventKey a = eventKey b)"
  using assms by (auto simp: keyStr_def eventKey_def eventTypes_def)


lemma inWindow_iff:
  assumes "getTime js ts \<noteq> None" "getTime js (p_timestamp p) \<noteq> None"
    "getTime js (p_windowEnd p) \<noteq> None"
  shows "outsideWindow (getTime js ts) (getTime js (p_timestamp p)) (getTime js (p_windowEnd p)) =
         (\<not> spec_inWindow js p ts)"
  using assms by (auto simp: outsideWindow_def jsLess_def spec_inWindow_def)

lemma concat_map_filter:
  assumes "\<And>x. x \<in> set xs \<Longrightarrow> map snd (items x) = (if Q x then [ev x] else [])"
  shows "map snd (concat (map items xs)) = map ev (filter Q xs)"
  using assms by (induction xs) simp_all

lemma items_are_candidates:
  assumes "timesParse js p K S"
  shows "map snd (allItems js p K S) = spec_candidates js p K S"
proof -
  let ?s = "getTime js (p_timestamp p)" and ?e = "getTime js (p_windowEnd p)"
  from assms have se: "?s \<noteq> None" "?e \<noteq> None"
    and pa: "\<And>a. a \<in> set (alertsSent K) \<Longrightarrow> getTime js (a_timestamp a) \<noteq> None"
    and pf: "\<And>f. f \<in> set (recentFlares S) \<Longrightarrow> getTime js (fl_beginTime f) \<noteq> None"
    and ps: "\<And>x. x \<in> set (recentStorms S) \<Longrightarrow> getTime js (st_startTime x) \<noteq> None"
    and pc: "\<And>c. c \<in> set (earthDirectedCMEs S) \<Longrightarrow> getTime js (cme_startTime c) \<noteq> None"
    by (simp_all add: timesParse_def list_all_iff)
  have 1: "map snd (concat (map (alertItems js ?s ?e) (alertsSent K))) =
      map (\<lambda>a. \<lparr>ev_type = spec_eventType (a_type a), ev_description = a_title a,
                ev_timestamp = a_timestamp a\<rparr>)
        (filter (\<lambda>a. a_type a \<in> set spec_qualifyingTypes \<and> spec_inWindow js p (a_timestamp a))
           (alertsSent K))"
    by (rule concat_map_filter)
      (simp add: alertItems_def alertEvent_shape inWindow_iff [OF pa se])
  have 2: "map snd (concat (map (flareItems js ?s ?e) (recentFlares S))) =
      map (\<lambda>f. \<lparr>ev_type = ''flare'', ev_description = fl_classType f @ '' Flare'',
                ev_timestamp = fl_beginTime f\<rparr>)
        (filter (\<lambda>f. (take 1 (fl_classType f) = ''M'' \<or> take 1 (fl_classType f) = ''X'') \<and>
                      spec_inWindow js p (fl_beginTime f))
           (recentFlares S))"
    by (rule concat_map_filter)
      (simp add: flareItems_def startsWith_def inWindow_iff [OF pf se])
  have 3: "map snd (concat (map (stormItems js ?s ?e) (recentStorms S))) =
      map (\<lambda>s. \<lparr>ev_type = ''kp'',
                ev_description = ''Kp '' @ numStr js (st_kpIndex s) @ '' ('' @ st_gScale s @ '')'',
                ev_timestamp = st_startTime s\<rparr>)
        (filter (\<lambda>s. st_kpIndex s \<ge> 5 \<and> spec_inWindow js p (st_startTime s)) (recentStorms S))"
    by (rule concat_map_filter)
      (simp add: stormItems_def inWindow_iff [OF ps se])
  have 4: "map snd (concat (map (cmeItems js ?s ?e) (earthDirectedCMEs S))) =
      map (\<lambda>c. \<lparr>ev_type = ''cme'',
                ev_description = ''Earth-directed CME'' @
                  (case cme_speed c of None \<Rightarrow> []
                   | Some v \<Rightarrow> if v = 0 then [] else '' ('' @ numStr js v @ '' km/s)''),
                ev_timestamp = cme_startTime c\<rparr>)
        (filter (\<lambda>c. spec_inWindow js p (cme_startTime c)) (earthDirectedCMEs S))"
    by (rule concat_map_filter)
      (simp add: cmeItems_def inWindow_iff [OF pc se])
  show ?thesis
    unfolding allItems_def spec_candidates_def map_append 1 2 3 4 ..
qed

lemma matched_events:
  assumes "timesParse js p K S"
  shows "set (findMatchingEvents js p K S) \<subseteq> set (spec_candidates js p K S) \<and>
         eventKey ` set (findMatchingEvents js p K S) = eventKey ` set (spec_candidates js p K S) \<and>
         distinct (map eventKey (findMatchingEvents js p K S)) \<and>
         (findMatchingEvents js p K S = []) = (spec_candidates js p K S = [])"
proof -
  let ?items = "allItems js p K S"
  let ?m = "findMatchingEvents js p K S"
  have keyed: "\<forall>item \<in> set ?items. fst item = keyStr (snd item)"
    using allItems_keyed by blast
  have typed: "\<And>e. e \<in> snd ` set ?items \<Longrightarrow> ev_type e \<in> set eventTypes"
    using allItems_keyed by blast
  have cand: "snd ` set ?items = set (spec_candidates js p K S)"
    using items_are_candidates [OF assms] by (metis set_map)
  have m: "?m = fst (pushAll ?items ([], {}))"
    by (rule findMatchingEvents_items)
  note inv = pushAll_ok [OF keyed accOK_empty]
  from inv have sub: "set ?m \<subseteq> snd ` set ?items"
    by (simp add: m)
  from inv have keys: "keyStr ` set ?m = fst ` set ?items"
    by (simp add: m)
  from inv have dist: "distinct (map keyStr ?m)"
    by (simp add: m accOK_def)
  have keys': "keyStr ` set ?m = keyStr ` snd ` set ?items"
    using keys keyed by (auto simp: image_iff) 
  have mtyped: "\<And>e. e \<in> set ?m \<Longrightarrow> ev_type e \<in> set eventTypes"
    using sub typed by blast
  have ek: "eventKey ` set ?m = eventKey ` snd ` set ?items"
  proof (intro equalityI subsetI)
    fix k assume "k \<in> eventKey ` set ?m"
    with sub show "k \<in> eventKey ` snd ` set ?items" by blast
  next
    fix k assume "k \<in> eventKey ` snd ` set ?items"
    then obtain c where c: "c \<in> snd ` set ?items" "k = eventKey c" by blast
    with keys' obtain e where e: "e \<in> set ?m" "keyStr e = keyStr c" by (metis imageE imageI)
    with c typed mtyped have "eventKey e = eventKey c"
      by (simp add: keyStr_eventKey [symmetric])
    with e c show "k \<in> eventKey ` set ?m" by (metis imageI)
  qed
  have inj: "inj_on keyStr (set ?m)"
    using dist by (simp add: distinct_map)
  have "inj_on eventKey (set ?m)"
  proof (rule inj_onI)
    fix a b assume ab: "a \<in> set ?m" "b \<in> set ?m" "eventKey a = eventKey b"
    with mtyped have "keyStr a = keyStr b" by (simp add: keyStr_eventKey)
    with inj ab show "a = b" by (auto dest: inj_onD)
  qed
  with dist have dist': "distinct (map eventKey ?m)"
    by (simp add: distinct_map)
  have empty: "(?m = []) = (spec_candidates js p K S = [])"
  proof
    assume "?m = []"
    with ek have "eventKey ` snd ` set ?items = {}" by simp
    with cand show "spec_candidates js p K S = []" by simp
  next
    assume "spec_candidates js p K S = []"
    with cand sub show "?m = []" by simp
  qed
  from sub ek dist' empty show ?thesis
    unfolding cand by blast
qed


lemma verifyOne_meets_spec:
  assumes rt: "getTime js (toISOString js now) = Some now" and tp: "timesParse js p K S"
  shows "spec_verified js now K S p (verifyOne js now K S p)"
proof -
  from tp obtain w where w: "getTime js (p_windowEnd p) = Some w"
    by (auto simp: timesParse_def)
  note me = matched_events [OF tp]
  show ?thesis
  proof (cases "p_status p = Pending \<and> w \<le> now")
    case True
    then have v: "verifyOne js now K S p =
        p\<lparr>p_matchedEvents := findMatchingEvents js p K S,
          p_status := (if length (findMatchingEvents js p K S) > 0 then Hit else Miss),
          p_verifiedAt := Some (toISOString js now)\<rparr>"
      by (simp add: verifyOne_def w jsLess_def Let_def)
    from True have c: "spec_windowClosed js now p"
      by (simp add: spec_windowClosed_def w)
    from True have nb: "spec_notBefore js (toISOString js now) (p_windowEnd p)"
      by (simp add: spec_notBefore_def rt w)
    from me have e: "(findMatchingEvents js p K S = []) = (spec_candidates js p K S = [])"
      by blast
    from True c nb me e show ?thesis
      unfolding spec_verified_def v by simp
  next
    case False
    then have same: "verifyOne js now K S p = p"
      by (auto simp: verifyOne_def w jsLess_def)
    from False have n: "\<not> (p_status p = Pending \<and> spec_windowClosed js now p)"
      by (simp add: spec_windowClosed_def w)
    show ?thesis
      by (simp only: spec_verified_def n if_False same)
  qed
qed

text \<open>
  Claim C1. The verification pass maps every prediction of the list as the loop body
  does, and on every prediction whose timestamps are well formed the loop body does what
  the specification says: a pending prediction whose window has ended becomes a hit when
  the set of matched events is not empty and a miss otherwise, with \<open>verifiedAt\<close> set to
  now, which is not before the end of the window; its matched events are candidates of
  the four sources with timestamps in the window, one for each type and timestamp and no
  two with the same, and they are not empty exactly when the status is hit; a prediction
  whose window is still open, or that is already hit or miss, is unchanged. When a
  prediction was due and the write succeeds, the result is stored.
\<close>

theorem verification_pass:
  assumes "getTime js (toISOString js now) = Some now"
  shows "predictions (v_state (verifyPendingPredictions js now saveOk K S P store)) =
           map (verifyOne js now K S) (predictions P) \<and>
         (\<forall>p. timesParse js p K S \<longrightarrow> spec_verified js now K S p (verifyOne js now K S p)) \<and>
         (saveOk \<and> filter (isDue js now) (predictions P) \<noteq> [] \<longrightarrow>
            v_store (verifyPendingPredictions js now saveOk K S P store) =
              Some (capPredictions (v_state (verifyPendingPredictions js now saveOk K S P store))))"
proof -
  have 1: "predictions (v_state (verifyPendingPredictions js now saveOk K S P store)) =
           map (verifyOne js now K S) (predictions P)"
    by (simp add: verifyPendingPredictions_def Let_def)
  have 2: "\<forall>p. timesParse js p K S \<longrightarrow> spec_verified js now K S p (verifyOne js now K S p)"
    using verifyOne_meets_spec [OF assms] by blast
  have 3: "saveOk \<and> filter (isDue js now) (predictions P) \<noteq> [] \<longrightarrow>
            v_store (verifyPendingPredictions js now saveOk K S P store) =
              Some (capPredictions (v_state (verifyPendingPredictions js now saveOk K S P store)))"
    by (simp add: verifyPendingPredictions_def Let_def savePredictions_def)
  from 1 2 3 show ?thesis by blast
qed


lemma demo_verifyOne:
  "verifyOne demoLib 1715343300000 DEFAULT_STATE flareSnapshot demoPrediction =
     demoPrediction
       \<lparr>p_matchedEvents := [\<lparr>ev_type = ''flare'', ev_description = ''M2.1 Flare'',
                              ev_timestamp = ''2024-05-09T06:00:00.000Z''\<rparr>],
        p_status := Hit,
        p_verifiedAt := Some ''2024-05-10T12:15:00.000Z''\<rparr>"
  by (simp add: verifyOne_def findMatchingEvents_def flareStep_def stormStep_def cmeStep_def
      alertStep_def pushEvent_def outsideWindow_def jsLess_def startsWith_def Let_def
      demoPrediction_def flareSnapshot_def quietSnapshot_def demoFlare_def DEFAULT_STATE_def
      demoLib_def demoTimes_def)

theorem verification_pass_witness:
  "getTime demoLib (toISOString demoLib 1715343300000) = Some 1715343300000 \<and>
   timesParse demoLib demoPrediction DEFAULT_STATE flareSnapshot \<and>
   spec_verified demoLib 1715343300000 DEFAULT_STATE flareSnapshot demoPrediction
     (demoPrediction
       \<lparr>p_matchedEvents := [\<lparr>ev_type = ''flare'', ev_description = ''M2.1 Flare'',
                              ev_timestamp = ''2024-05-09T06:00:00.000Z''\<rparr>],
        p_status := Hit,
        p_verifiedAt := Some ''2024-05-10T12:15:00.000Z''\<rparr>) \<and>
   predictions (v_state (verifyPendingPredictions demoLib 1715343300000 True DEFAULT_STATE
       flareSnapshot demoPredictions None)) =
     [demoPrediction
       \<lparr>p_matchedEvents := [\<lparr>ev_type = ''flare'', ev_description = ''M2.1 Flare'',
                              ev_timestamp = ''2024-05-09T06:00:00.000Z''\<rparr>],
        p_status := Hit,
        p_verifiedAt := Some ''2024-05-10T12:15:00.000Z''\<rparr>] \<and>
   v_store (verifyPendingPredictions demoLib 1715343300000 True DEFAULT_STATE
       flareSnapshot demoPredictions None) =
     Some (capPredictions (v_state (verifyPendingPredictions demoLib 1715343300000 True
       DEFAULT_STATE flareSnapshot demoPredictions None)))"
proof -
  have rt: "getTime demoLib (toISOString demoLib 1715343300000) = Some 1715343300000"
    by (simp add: demoLib_def demoTimes_def)
  have tp: "timesParse demoLib demoPrediction DEFAULT_STATE flareSnapshot"
    by (simp add: timesParse_def demoPrediction_def flareSnapshot_def quietSnapshot_def
        demoFlare_def DEFAULT_STATE_def demoLib_def demoTimes_def)
  have due: "filter (isDue demoLib 1715343300000) (predictions demoPredictions) \<noteq> []"
    by (simp add: isDue_def jsLess_def demoPredictions_def demoPrediction_def demoLib_def
        demoTimes_def)
  note inst = verification_pass [OF rt, where saveOk = True and K = DEFAULT_STATE
      and S = flareSnapshot and P = demoPredictions and store = None]
  from inst tp have 1: "spec_verified demoLib 1715343300000 DEFAULT_STATE flareSnapshot demoPrediction
      (verifyOne demoLib 1715343300000 DEFAULT_STATE flareSnapshot demoPrediction)"
    by blast
  from inst have 2: "predictions (v_state (verifyPendingPredictions demoLib 1715343300000 True
      DEFAULT_STATE flareSnapshot demoPredictions None)) =
      [verifyOne demoLib 1715343300000 DEFAULT_STATE flareSnapshot demoPrediction]"
    by (simp add: demoPredictions_def)
  from inst due have 3: "v_store (verifyPendingPredictions demoLib 1715343300000 True DEFAULT_STATE
       flareSnapshot demoPredictions None) =
     Some (capPredictions (v_state (verifyPendingPredictions demoLib 1715343300000 True
       DEFAULT_STATE flareSnapshot demoPredictions None)))"
    by blast
  from rt tp 1 2 3 show ?thesis
    unfolding demo_verifyOne by blast
qed

end
